theory Spec2Isabelle
  imports Complex_Main
begin

section \<open>JavaScript strings and values\<close>

text \<open>
  Strings are \<open>char list\<close>. A string is truthy when it is not empty; a missing value
  (\<open>undefined\<close> or \<open>null\<close>) is \<open>None\<close> and is falsy.
\<close>

definition truthy :: "string option \<Rightarrow> bool" where
  "truthy v = (case v of None \<Rightarrow> False | Some s \<Rightarrow> s \<noteq> [])"

text \<open>\<open>a || b\<close> on values that are strings or missing.\<close>

definition js_or :: "string option \<Rightarrow> string option \<Rightarrow> string option" where
  "js_or a b = (if truthy a then a else b)"

text \<open>\<open>x || undefined\<close>: an empty string becomes missing.\<close>

definition or_undefined :: "string option \<Rightarrow> string option" where
  "or_undefined a = (if truthy a then a else None)"

definition lower_char :: "char \<Rightarrow> char" where
  "lower_char c =
     (case map_of (zip ''ABCDEFGHIJKLMNOPQRSTUVWXYZ'' ''abcdefghijklmnopqrstuvwxyz'') c of
        Some l \<Rightarrow> l
      | None \<Rightarrow> c)"

text \<open>\<open>String.prototype.toLowerCase\<close> on the letters A to Z, the only ones a tag name of an
  HTML document holds.\<close>

definition toLowerCase :: "string \<Rightarrow> string" where
  "toLowerCase s = map lower_char s"

text \<open>The white space that \<open>trim\<close> removes, among the code points below 256.\<close>

definition isSpace :: "char \<Rightarrow> bool" where
  "isSpace c = (c \<in> set [CHR 0x09, CHR 0x0A, CHR 0x0B, CHR 0x0C, CHR 0x0D, CHR 0x20, CHR 0xA0])"

definition trim :: "string \<Rightarrow> string" where
  "trim s = rev (dropWhile isSpace (rev (dropWhile isSpace s)))"

text \<open>\<open>s.substring(0, n)\<close>.\<close>

definition substring0 :: "nat \<Rightarrow> string \<Rightarrow> string" where
  "substring0 n s = take n s"

text \<open>\<open>s.split(' ')\<close>: the pieces between single spaces; the empty string gives one empty piece.\<close>

fun split_space :: "string \<Rightarrow> string list" where
  "split_space [] = [[]]"
| "split_space (c # cs) =
     (if c = CHR '' '' then [] # split_space cs
      else (case split_space cs of
              [] \<Rightarrow> [[c]]
            | p # ps \<Rightarrow> (c # p) # ps))"

text \<open>\<open>xs.join(sep)\<close>.\<close>

fun join :: "string \<Rightarrow> string list \<Rightarrow> string" where
  "join sep [] = []"
| "join sep [x] = x"
| "join sep (x # y # ys) = x @ sep @ join sep (y # ys)"

text \<open>A non-negative integer written in decimal, as template literals and \<open>String\<close> print it.\<close>

definition digit_char :: "nat \<Rightarrow> char" where
  "digit_char d = ''0123456789'' ! d"

fun string_of_nat :: "nat \<Rightarrow> string" where
  "string_of_nat n =
     (if n < 10 then [digit_char n]
      else string_of_nat (n div 10) @ [digit_char (n mod 10)])"

declare string_of_nat.simps [simp del]

text \<open>\<open>s.repeat(n)\<close>.\<close>

definition repeat :: "string \<Rightarrow> nat \<Rightarrow> string" where
  "repeat s n = concat (replicate n s)"

section \<open>The document\<close>

text \<open>
  A node of the live document is a text node or an element. An element carries what the
  snapshot reads from it: \<open>tagName\<close>, its attributes (for \<open>getAttribute\<close>, \<open>id\<close> and
  \<open>className\<close>), the \<open>type\<close> and \<open>value\<close> properties (\<open>None\<close> where the element has
  none) and its child nodes in document order.
\<close>

datatype node =
    Text string
  | Element (tagName: string) (attrs: "(string \<times> string) list")
      (type_prop: "string option") (value_prop: "string option") (childNodes: "node list")

fun isElement :: "node \<Rightarrow> bool" where
  "isElement (Text _) = False"
| "isElement (Element _ _ _ _ _) = True"

text \<open>\<open>el.children\<close>: the child nodes that are elements.\<close>

definition children :: "node \<Rightarrow> node list" where
  "children el = filter isElement (childNodes el)"

text \<open>\<open>textContent\<close>: the text of all descendant text nodes, in document order.\<close>

fun textContent :: "node \<Rightarrow> string" where
  "textContent (Text s) = s"
| "textContent (Element _ _ _ _ cs) = concat (map textContent cs)"

definition getAttribute :: "node \<Rightarrow> string \<Rightarrow> string option" where
  "getAttribute el a = map_of (attrs el) a"

text \<open>\<open>el.id\<close> and \<open>el.className\<close> reflect the attributes and are empty when there is none.\<close>

definition el_id :: "node \<Rightarrow> string" where
  "el_id el = (case getAttribute el ''id'' of None \<Rightarrow> [] | Some v \<Rightarrow> v)"

definition className :: "node \<Rightarrow> string" where
  "className el = (case getAttribute el ''class'' of None \<Rightarrow> [] | Some v \<Rightarrow> v)"

section \<open>The snapshot traversal\<close>

record ElementAttributes =
  attr_id :: "string option"
  attr_className :: "string option"
  attr_name :: "string option"
  attr_placeholder :: "string option"

record ElementSnapshot =
  ref :: string
  role :: string
  name :: string
  tag :: string
  depth :: nat
  clickable :: bool
  type :: "string option"
  value' :: "string option"
  selector :: string
  attributes :: ElementAttributes

text \<open>The loop of \<open>getSelector\<close> over the discriminating attributes: the first one with a
  truthy value is appended, and the loop stops there.\<close>

fun attr_suffix :: "node \<Rightarrow> string list \<Rightarrow> string" where
  "attr_suffix el [] = []"
| "attr_suffix el (a # as) =
     (if truthy (getAttribute el a)
      then ''['' @ a @ ''=\"'' @ the (getAttribute el a) @ ''\"]''
      else attr_suffix el as)"

definition getSelector :: "node \<Rightarrow> string" where
  "getSelector el =
     (if el_id el \<noteq> [] then ''#'' @ el_id el
      else
        let tagName = toLowerCase (tagName el);
            classes = filter (\<lambda>c. trim c \<noteq> []) (split_space (className el));
            selector =
              (if className el \<noteq> [] \<and> classes \<noteq> [] then tagName @ ''.'' @ join ''.'' classes
               else tagName)
        in selector @ attr_suffix el [''name'', ''type'', ''placeholder'', ''aria-label''])"

definition included_tags :: "string list" where
  "included_tags = [''button'', ''input'', ''select'', ''textarea'', ''a'', ''h1'', ''h2'', ''h3'',
     ''h4'', ''h5'', ''h6'', ''label'', ''option'']"

definition clickable_tags :: "string list" where
  "clickable_tags = [''button'', ''a'', ''input'', ''select'', ''textarea'']"

text \<open>The trimmed, truncated text of an element: \<open>el.textContent?.trim().substring(0, 100) || ''\<close>.\<close>

definition text_of :: "node \<Rightarrow> string" where
  "text_of el = substring0 100 (trim (textContent el))"

text \<open>The condition under which \<open>processElement\<close> records an element.\<close>

definition included :: "node \<Rightarrow> bool" where
  "included el = (text_of el \<noteq> [] \<or> toLowerCase (tagName el) \<in> set included_tags)"

text \<open>The entry pushed for an included element, given the counter value and the depth.\<close>

definition entry :: "node \<Rightarrow> nat \<Rightarrow> nat \<Rightarrow> ElementSnapshot" where
  "entry el refCounter d =
     (let tagName = toLowerCase (tagName el) in
      \<lparr> ref = ''e'' @ string_of_nat refCounter,
        role = the (js_or (js_or (getAttribute el ''role'') (type_prop el)) (Some tagName)),
        name = text_of el,
        tag = tagName,
        depth = d,
        clickable = (tagName \<in> set clickable_tags \<or> getAttribute el ''onclick'' \<noteq> None
                     \<or> getAttribute el ''role'' = Some ''button''),
        type = or_undefined (type_prop el),
        value' = or_undefined (value_prop el),
        selector = getSelector el,
        attributes = \<lparr> attr_id = or_undefined (Some (el_id el)),
                       attr_className = or_undefined (Some (className el)),
                       attr_name = or_undefined (getAttribute el ''name''),
                       attr_placeholder = or_undefined (getAttribute el ''placeholder'') \<rparr> \<rparr>)"

text \<open>
  \<open>processElement\<close>: the state is the local counter and the array of entries collected so
  far. An included element takes the counter value and increments it; the children are then
  visited in order, one level deeper, whether or not the element was included.
\<close>

fun processElement :: "node \<Rightarrow> nat \<Rightarrow> nat \<times> ElementSnapshot list \<Rightarrow> nat \<times> ElementSnapshot list" where
  "processElement (Text s) d st = st"
| "processElement (Element tg as ty v cs) d (refCounter, elements) =
     fold (\<lambda>child. processElement child (d + 1)) (filter isElement cs)
       (if included (Element tg as ty v cs)
        then (refCounter + 1, elements @ [entry (Element tg as ty v cs) refCounter d])
        else (refCounter, elements))"

text \<open>The function evaluated in the page: the counter starts at 100, the traversal starts at
  \<open>document.body\<close> with depth 0, and a document without a body gives no entry.\<close>

definition snapshot_elements :: "node option \<Rightarrow> ElementSnapshot list" where
  "snapshot_elements body =
     (case body of None \<Rightarrow> [] | Some b \<Rightarrow> snd (processElement b 0 (100, [])))"

section \<open>Results and errors\<close>

text \<open>A tool result is a sequence of content blocks, each with a type and a text.\<close>

datatype content_block = Block (block_type: string) (block_text: string)

type_synonym ToolResult = "content_block list"

definition text_result :: "string \<Rightarrow> ToolResult" where
  "text_result t = [Block ''text'' t]"

text \<open>
  What a \<open>throw\<close> carries: a plain \<open>Error\<close>, the \<open>TypeError\<close> of a property read on
  \<open>null\<close>, the \<open>ZodError\<close> of a failed \<open>parse\<close> with its issues, or the protocol's
  \<open>McpError\<close> with its code.
\<close>

datatype path_elem = Key string | Index nat

datatype issue_code = invalid_type | invalid_enum_value

datatype zod_issue = Issue (issue_code: issue_code) (issue_path: "path_elem list")

datatype ErrorCode = MethodNotFound | InvalidParams | InternalError

datatype js_error =
    Error string
  | TypeError string
  | ZodError "zod_issue list"
  | McpError ErrorCode string

section \<open>The automation engine\<close>

type_synonym page_id = nat

datatype image_type = png | jpeg

record ScreenshotOptions =
  opt_path :: string
  opt_fullPage :: bool
  opt_type :: image_type

text \<open>
  The calls on a page that return nothing, named after the methods of the page; a selector
  names the target of a call. \<open>TypeSlowly\<close> is \<open>page.type\<close> with a delay, \<open>Press\<close> is
  \<open>page.press\<close> on a selector and \<open>KeyboardPress\<close> is \<open>page.keyboard.press\<close>;
  \<open>SetInputFiles\<close> acts on the first file input; \<open>OnceDialog\<close> registers the one-shot
  dialog listener with the choice to accept and the prompt text; the flag of
  \<open>WaitForSelector\<close> tells whether the selector is awaited to be detached.
\<close>

datatype action =
    Goto string
  | GoBack
  | Click string
  | TypeSlowly string string
  | Fill string string
  | Press string string
  | KeyboardPress string
  | SetChecked string bool
  | SelectOption string "string list"
  | Hover string
  | DragAndDrop string string
  | Screenshot ScreenshotOptions
  | LocatorScreenshot string ScreenshotOptions
  | SetInputFiles "string list"
  | ClosePage
  | BringToFront
  | OnceDialog bool string
  | WaitForSelector string bool
  | WaitForTimeout rat
  | SetViewportSize rat rat

text \<open>
  The engine and the other libraries the manager calls are parameters of the model. The
  state of the running application (its windows and their documents) has type \<open>'w\<close>; a
  call that can be rejected gives the message of the rejection on the left. A call on a
  page changes the application whether it is rejected or not.
  \<^item> \<open>page_exec\<close>: an awaited call on a page that returns nothing (see \<open>action\<close>);
  \<^item> \<open>page_title\<close>, \<open>page_url\<close>: \<open>page.title()\<close> and \<open>page.url()\<close>;
  \<^item> \<open>page_body\<close>: \<open>document.body\<close> as the function given to \<open>page.evaluate\<close> by
    \<open>snapshot\<close> finds it;
  \<^item> \<open>page_evaluate\<close>, \<open>locator_evaluate\<close>: \<open>page.evaluate(func)\<close> and
    \<open>page.locator(selector).evaluate(function)\<close>, with the result as \<open>JSON.stringify\<close>
    prints it;
  \<^item> \<open>make_function\<close>: \<open>new Function(source)()\<close>;
  \<^item> \<open>file_inputs\<close>: the number of elements \<open>page.locator('input[type="file"]').all()\<close>
    finds;
  \<^item> \<open>app_windows\<close>, \<open>app_firstWindow\<close>, \<open>app_close\<close>: \<open>electronApp.windows().length\<close>,
    \<open>electronApp.firstWindow()\<close> and \<open>electronApp.close()\<close>;
  \<^item> \<open>now_iso\<close>: \<open>new Date().toISOString()\<close>; \<open>path_join\<close>: \<open>join\<close> of \<open>path\<close>;
    \<open>number_text\<close>: a number in a template literal; \<open>requests_json\<close> and
    \<open>messages_json\<close>: \<open>JSON.stringify(log, null, 2)\<close>; \<open>zod_message\<close>: the message of a
    \<open>ZodError\<close> with the given issues.
\<close>

record 'w env =
  page_exec :: "action \<Rightarrow> page_id \<Rightarrow> 'w \<Rightarrow> string option \<times> 'w"
  page_title :: "page_id \<Rightarrow> 'w \<Rightarrow> string + string"
  page_url :: "page_id \<Rightarrow> 'w \<Rightarrow> string"
  page_body :: "page_id \<Rightarrow> 'w \<Rightarrow> string + node option"
  page_evaluate :: "string \<Rightarrow> page_id \<Rightarrow> 'w \<Rightarrow> (string + string) \<times> 'w"
  locator_evaluate :: "string \<Rightarrow> string \<Rightarrow> page_id \<Rightarrow> 'w \<Rightarrow> (string + string) \<times> 'w"
  make_function :: "string \<Rightarrow> string + string"
  file_inputs :: "page_id \<Rightarrow> 'w \<Rightarrow> string + nat"
  app_windows :: "'w \<Rightarrow> nat"
  app_firstWindow :: "'w \<Rightarrow> (string + page_id) \<times> 'w"
  app_close :: "'w \<Rightarrow> string option \<times> 'w"
  now_iso :: "'w \<Rightarrow> string"
  path_join :: "string \<Rightarrow> string \<Rightarrow> string"
  number_text :: "rat \<Rightarrow> string"
  requests_json :: "(string \<times> string \<times> rat option \<times> string option \<times> rat) list \<Rightarrow> string"
  messages_json :: "(string \<times> string \<times> rat \<times> string option) list \<Rightarrow> string"
  zod_message :: "zod_issue list \<Rightarrow> string"

section \<open>The browser manager\<close>

text \<open>
  The fields of \<open>ElectronBrowserManager\<close>. \<open>electronApp\<close> tells whether the handle is set;
  \<open>app\<close> is the state of the application behind the handles. A network request is
  (url, method, status, contentType, timestamp) and a console message is
  (type, text, timestamp, location).
\<close>

record 'w manager =
  electronApp :: bool
  currentPage :: "page_id option"
  pages :: "page_id list"
  networkRequests :: "(string \<times> string \<times> rat option \<times> string option \<times> rat) list"
  consoleMessages :: "(string \<times> string \<times> rat \<times> string option) list"
  screenshotDir :: string
  elementRefMap :: "string \<rightharpoonup> string"
  refCounter :: nat
  app :: 'w

type_synonym 'w outcome = "(js_error + ToolResult) \<times> 'w manager"

definition not_initialized :: js_error where
  "not_initialized = Error ''Browser not initialized''"

text \<open>\<open>const selector = this.elementRefMap.get(ref); if (!selector) ...\<close>: the selector,
  or \<open>None\<close> when the map has no entry or an empty one.\<close>

definition lookup_selector :: "'w manager \<Rightarrow> string \<Rightarrow> string option" where
  "lookup_selector m r = or_undefined (elementRefMap m r)"

text \<open>One awaited call on the page, followed by the rest of the handler: a rejection ends
  the handler with that error.\<close>

definition step :: "'w env \<Rightarrow> action \<Rightarrow> page_id \<Rightarrow> 'w manager \<Rightarrow> ('w manager \<Rightarrow> 'w outcome) \<Rightarrow> 'w outcome" where
  "step E a p m k =
     (case page_exec E a p (app m) of
        (Some msg, w) \<Rightarrow> (Inl (Error msg), m\<lparr>app := w\<rparr>)
      | (None, w) \<Rightarrow> k (m\<lparr>app := w\<rparr>))"

definition ok :: "string \<Rightarrow> 'w manager \<Rightarrow> 'w outcome" where
  "ok t m = (Inr (text_result t), m)"

definition fail :: "js_error \<Rightarrow> 'w manager \<Rightarrow> 'w outcome" where
  "fail e m = (Inl e, m)"

text \<open>The title and URL report that \<open>navigate\<close> and \<open>navigateBack\<close> end with.\<close>

definition report_page :: "'w env \<Rightarrow> string \<Rightarrow> string \<Rightarrow> page_id \<Rightarrow> 'w manager \<Rightarrow> 'w outcome" where
  "report_page E prefix suffix p m =
     (case page_title E p (app m) of
        Inl msg \<Rightarrow> fail (Error msg) m
      | Inr t \<Rightarrow> ok (prefix @ t @ ''\<newline>URL: '' @ page_url E p (app m) @ suffix) m)"

text \<open>\<open>navigate\<close> reads \<open>this.currentPage!\<close> without a check: on \<open>null\<close> the property read
  throws a \<open>TypeError\<close>.\<close>

definition navigate :: "'w env \<Rightarrow> string \<Rightarrow> 'w manager \<Rightarrow> 'w outcome" where
  "navigate E url m =
     (if url = [] then
        (case currentPage m of
           None \<Rightarrow> fail (TypeError ''Cannot read properties of null (reading 'title')'') m
         | Some p \<Rightarrow> report_page E ''Navigated to: '' ''\<newline>Status: success'' p m)
      else
        (case currentPage m of
           None \<Rightarrow> fail (TypeError ''Cannot read properties of null (reading 'goto')'') m
         | Some p \<Rightarrow>
             step E (Goto url) p m (report_page E ''Navigated to: '' ''\<newline>Status: success'' p)))"

definition navigateBack :: "'w env \<Rightarrow> 'w manager \<Rightarrow> 'w outcome" where
  "navigateBack E m =
     (case currentPage m of
        None \<Rightarrow> fail not_initialized m
      | Some p \<Rightarrow> step E GoBack p m (report_page E ''Navigated back to: '' [] p))"

definition click :: "'w env \<Rightarrow> string \<Rightarrow> string \<Rightarrow> 'w manager \<Rightarrow> 'w outcome" where
  "click E element r m =
     (case currentPage m of
        None \<Rightarrow> fail not_initialized m
      | Some p \<Rightarrow>
          (case lookup_selector m r of
             None \<Rightarrow>
               fail (Error (''Element reference '' @ r @ '' not found. Please take a snapshot first.'')) m
           | Some sel \<Rightarrow>
               step E (Click sel) p m (ok (''Clicked on '' @ element @ '' (ref: '' @ r @ '')''))))"

text \<open>\<open>type\<close>: \<open>slowly\<close> and \<open>submit\<close> are optional booleans; a missing one is falsy.\<close>

definition type_text :: "'w env \<Rightarrow> string \<Rightarrow> string \<Rightarrow> string \<Rightarrow> bool option \<Rightarrow> bool option \<Rightarrow> 'w manager \<Rightarrow> 'w outcome" where
  "type_text E element r txt slowly submit m =
     (case currentPage m of
        None \<Rightarrow> fail not_initialized m
      | Some p \<Rightarrow>
          (case lookup_selector m r of
             None \<Rightarrow>
               fail (Error (''Element reference '' @ r @ '' not found. Please take a snapshot first.'')) m
           | Some sel \<Rightarrow>
               step E (if slowly = Some True then TypeSlowly sel txt else Fill sel txt) p m
                 (\<lambda>m1. let finish = ok (''Typed \"'' @ txt @ ''\" into '' @ element @ '' (ref: '' @ r @ '')'')
                        in if submit = Some True then step E (Press sel ''Enter'') p m1 finish
                           else finish m1)))"

definition pressKey :: "'w env \<Rightarrow> string \<Rightarrow> 'w manager \<Rightarrow> 'w outcome" where
  "pressKey E key m =
     (case currentPage m of
        None \<Rightarrow> fail not_initialized m
      | Some p \<Rightarrow> step E (KeyboardPress key) p m (ok (''Pressed key: '' @ key)))"

text \<open>A field of \<open>fill_form\<close>: name, type, ref and value.\<close>

datatype form_field = Field (field_name: string) (field_type: string) (field_ref: string) (field_value: string)

text \<open>The loop of \<open>fillForm\<close> over the fields, with the result lines collected so far. The
  first field whose reference does not resolve ends the loop with an error; the fields
  before it have been filled by then.\<close>

fun fillForm_loop :: "'w env \<Rightarrow> page_id \<Rightarrow> form_field list \<Rightarrow> string list \<Rightarrow> 'w manager \<Rightarrow> (js_error + string list) \<times> 'w manager" where
  "fillForm_loop E p [] results m = (Inr results, m)"
| "fillForm_loop E p (f # fs) results m =
     (case lookup_selector m (field_ref f) of
        None \<Rightarrow>
          (Inl (Error (''Element reference '' @ field_ref f @ '' not found for field '' @ field_name f)), m)
      | Some sel \<Rightarrow>
          (if field_type f = ''checkbox'' then
             (let isChecked = (field_value f = ''true'') in
              case page_exec E (SetChecked sel isChecked) p (app m) of
                (Some msg, w) \<Rightarrow> (Inl (Error msg), m\<lparr>app := w\<rparr>)
              | (None, w) \<Rightarrow>
                  fillForm_loop E p fs
                    (results @ [field_name f @ '': '' @ (if isChecked then ''checked'' else ''unchecked'')])
                    (m\<lparr>app := w\<rparr>))
           else
             (case page_exec E (Fill sel (field_value f)) p (app m) of
                (Some msg, w) \<Rightarrow> (Inl (Error msg), m\<lparr>app := w\<rparr>)
              | (None, w) \<Rightarrow>
                  fillForm_loop E p fs (results @ [field_name f @ '': \"'' @ field_value f @ ''\"''])
                    (m\<lparr>app := w\<rparr>))))"

definition fillForm :: "'w env \<Rightarrow> form_field list \<Rightarrow> 'w manager \<Rightarrow> 'w outcome" where
  "fillForm E fs m =
     (case currentPage m of
        None \<Rightarrow> fail not_initialized m
      | Some p \<Rightarrow>
          (case fillForm_loop E p fs [] m of
             (Inl e, m1) \<Rightarrow> fail e m1
           | (Inr results, m1) \<Rightarrow> ok (''Filled form fields:\<newline>'' @ join ''\<newline>'' results) m1))"

definition selectOption :: "'w env \<Rightarrow> string \<Rightarrow> string \<Rightarrow> string list \<Rightarrow> 'w manager \<Rightarrow> 'w outcome" where
  "selectOption E element r vals m =
     (case currentPage m of
        None \<Rightarrow> fail not_initialized m
      | Some p \<Rightarrow>
          (case lookup_selector m r of
             None \<Rightarrow> fail (Error (''Element reference '' @ r @ '' not found'')) m
           | Some sel \<Rightarrow>
               step E (SelectOption sel vals) p m
                 (ok (''Selected options in '' @ element @ '': '' @ join '', '' vals))))"

definition hover :: "'w env \<Rightarrow> string \<Rightarrow> string \<Rightarrow> 'w manager \<Rightarrow> 'w outcome" where
  "hover E element r m =
     (case currentPage m of
        None \<Rightarrow> fail not_initialized m
      | Some p \<Rightarrow>
          (case lookup_selector m r of
             None \<Rightarrow> fail (Error (''Element reference '' @ r @ '' not found'')) m
           | Some sel \<Rightarrow>
               step E (Hover sel) p m (ok (''Hovered over '' @ element @ '' (ref: '' @ r @ '')''))))"

definition drag :: "'w env \<Rightarrow> string \<Rightarrow> string \<Rightarrow> string \<Rightarrow> string \<Rightarrow> 'w manager \<Rightarrow> 'w outcome" where
  "drag E startElement startRef endElement endRef m =
     (case currentPage m of
        None \<Rightarrow> fail not_initialized m
      | Some p \<Rightarrow>
          (case lookup_selector m startRef of
             None \<Rightarrow> fail (Error (''Start element reference '' @ startRef @ '' not found'')) m
           | Some startSelector \<Rightarrow>
               (case lookup_selector m endRef of
                  None \<Rightarrow> fail (Error (''End element reference '' @ endRef @ '' not found'')) m
                | Some endSelector \<Rightarrow>
                    step E (DragAndDrop startSelector endSelector) p m
                      (ok (''Dragged '' @ startElement @ '' to '' @ endElement)))))"

text \<open>The lines of the report for one entry, indented by its depth.\<close>

definition element_yaml :: "ElementSnapshot \<Rightarrow> string" where
  "element_yaml element =
     (let indent = repeat ''  '' (depth element + 2) in
      indent @ ''- ref: '' @ ref element @ ''\<newline>''
      @ indent @ ''  role: '' @ role element @ ''\<newline>''
      @ indent @ ''  name: \"'' @ name element @ ''\"\<newline>''
      @ indent @ ''  tag: '' @ tag element @ ''\<newline>''
      @ (if clickable element then indent @ ''  clickable: true\<newline>'' else [])
      @ (case or_undefined (type element) of
           None \<Rightarrow> []
         | Some t \<Rightarrow> indent @ ''  type: '' @ t @ ''\<newline>'')
      @ (case or_undefined (value' element) of
           None \<Rightarrow> []
         | Some v \<Rightarrow> indent @ ''  value: \"'' @ v @ ''\"\<newline>''))"

text \<open>The Ref Map after \<open>elements.forEach((element) => this.elementRefMap.set(element.ref,
  element.selector))\<close>.\<close>

definition set_refs :: "ElementSnapshot list \<Rightarrow> (string \<rightharpoonup> string) \<Rightarrow> (string \<rightharpoonup> string)" where
  "set_refs elements mp = fold (\<lambda>element mp'. mp'(ref element \<mapsto> selector element)) elements mp"

text \<open>
  \<open>snapshot\<close>: the map is cleared and the counter field reset before the page is read; the
  entries come from the traversal of the page's body; the map is then filled, and the
  report is built from the URL, the title and the entries.
\<close>

definition snapshot :: "'w env \<Rightarrow> 'w manager \<Rightarrow> 'w outcome" where
  "snapshot E m =
     (case currentPage m of
        None \<Rightarrow> fail not_initialized m
      | Some p \<Rightarrow>
          (let m1 = m\<lparr>elementRefMap := Map.empty, refCounter := 100\<rparr> in
           case page_body E p (app m1) of
             Inl msg \<Rightarrow> fail (Error msg) m1
           | Inr body \<Rightarrow>
               (let elements = snapshot_elements body;
                    m2 = m1\<lparr>elementRefMap := set_refs elements (elementRefMap m1)\<rparr>
                in case page_title E p (app m2) of
                     Inl msg \<Rightarrow> fail (Error msg) m2
                   | Inr t \<Rightarrow>
                       ok (''Page snapshot captured with '' @ string_of_nat (length elements)
                           @ '' elements:\<newline>\<newline>''
                           @ ''page:\<newline>''
                           @ ''  url: '' @ page_url E p (app m2) @ ''\<newline>''
                           @ ''  title: '' @ t @ ''\<newline>''
                           @ ''  elements:\<newline>''
                           @ concat (map element_yaml elements)) m2)))"

text \<open>\<open>new Date().toISOString().replace(/[:.]/g, '-')\<close>.\<close>

definition timestamp :: "'w env \<Rightarrow> 'w \<Rightarrow> string" where
  "timestamp E w = map (\<lambda>c. if c = CHR '':'' \<or> c = CHR ''.'' then CHR ''-'' else c) (now_iso E w)"

definition takeScreenshot :: "'w env \<Rightarrow> string option \<Rightarrow> string option \<Rightarrow> string option \<Rightarrow> bool option \<Rightarrow> string option \<Rightarrow> 'w manager \<Rightarrow> 'w outcome" where
  "takeScreenshot E filename element r fullPage ty m =
     (case currentPage m of
        None \<Rightarrow> fail not_initialized m
      | Some p \<Rightarrow>
          (let fname = the (js_or filename
                 (Some (''screenshot-'' @ timestamp E (app m) @ ''.'' @ the (js_or ty (Some ''png'')))));
               screenshotPath = path_join E (screenshotDir m) fname;
               options = \<lparr> opt_path = screenshotPath,
                           opt_fullPage = (fullPage = Some True),
                           opt_type = (if ty = Some ''jpeg'' then jpeg else png) \<rparr>;
               finish = ok (''Screenshot saved to: '' @ screenshotPath)
           in case (or_undefined element, or_undefined r) of
                (Some _, Some rf) \<Rightarrow>
                  (case lookup_selector m rf of
                     None \<Rightarrow> fail (Error (''Element reference '' @ rf @ '' not found'')) m
                   | Some sel \<Rightarrow> step E (LocatorScreenshot sel options) p m finish)
              | _ \<Rightarrow> step E (Screenshot options) p m finish))"

text \<open>
  \<open>evaluate\<close>: with a truthy \<open>element\<close> and a truthy \<open>ref\<close> the function runs on the
  located element; otherwise the string is turned into a function and runs in the page.
  Every error raised inside the \<open>try\<close> is thrown again with a prefix.
\<close>

definition evaluation_failed :: "string \<Rightarrow> js_error" where
  "evaluation_failed msg = Error (''JavaScript evaluation failed: '' @ msg)"

definition evaluation_result :: "(string + string) \<times> 'w \<Rightarrow> 'w manager \<Rightarrow> 'w outcome" where
  "evaluation_result r m =
     (case r of
        (Inl msg, w) \<Rightarrow> fail (evaluation_failed msg) (m\<lparr>app := w\<rparr>)
      | (Inr res, w) \<Rightarrow> ok (''JavaScript evaluation result: '' @ res) (m\<lparr>app := w\<rparr>))"

definition evaluate :: "'w env \<Rightarrow> string \<Rightarrow> string option \<Rightarrow> string option \<Rightarrow> 'w manager \<Rightarrow> 'w outcome" where
  "evaluate E function element r m =
     (case currentPage m of
        None \<Rightarrow> fail not_initialized m
      | Some p \<Rightarrow>
          (case (or_undefined element, or_undefined r) of
             (Some _, Some rf) \<Rightarrow>
               (case lookup_selector m rf of
                  None \<Rightarrow> fail (evaluation_failed (''Element reference '' @ rf @ '' not found'')) m
                | Some sel \<Rightarrow> evaluation_result (locator_evaluate E sel function p (app m)) m)
           | _ \<Rightarrow>
               (case make_function E (''return '' @ function) of
                  Inl msg \<Rightarrow> fail (evaluation_failed msg) m
                | Inr func \<Rightarrow> evaluation_result (page_evaluate E func p (app m)) m)))"

definition fileUpload :: "'w env \<Rightarrow> string list \<Rightarrow> 'w manager \<Rightarrow> 'w outcome" where
  "fileUpload E paths m =
     (case currentPage m of
        None \<Rightarrow> fail not_initialized m
      | Some p \<Rightarrow>
          (case file_inputs E p (app m) of
             Inl msg \<Rightarrow> fail (Error msg) m
           | Inr n \<Rightarrow>
               (if n = 0 then fail (Error ''No file input elements found on the page'') m
                else step E (SetInputFiles paths) p m (ok (''Uploaded files: '' @ join '', '' paths)))))"

text \<open>\<open>this.pages[index]\<close> for an optional number: a page only when the index is given and
  is a whole number below the length.\<close>

definition page_at :: "page_id list \<Rightarrow> rat option \<Rightarrow> (nat \<times> page_id) option" where
  "page_at ps idx =
     (case idx of
        None \<Rightarrow> None
      | Some q \<Rightarrow>
          (if 0 \<le> q \<and> q = of_int \<lfloor>q\<rfloor> \<and> nat \<lfloor>q\<rfloor> < length ps
           then Some (nat \<lfloor>q\<rfloor>, ps ! nat \<lfloor>q\<rfloor>) else None))"

text \<open>\<open>xs.indexOf(x)\<close> printed: the first position of \<open>x\<close>, or -1.\<close>

fun index_text :: "page_id list \<Rightarrow> page_id option \<Rightarrow> nat \<Rightarrow> string" where
  "index_text [] x i = ''-1''"
| "index_text (y # ys) x i = (if x = Some y then string_of_nat i else index_text ys x (i + 1))"

definition optional_number_text :: "'w env \<Rightarrow> rat option \<Rightarrow> string" where
  "optional_number_text E idx = (case idx of None \<Rightarrow> ''undefined'' | Some q \<Rightarrow> number_text E q)"

definition manageTabs :: "'w env \<Rightarrow> string \<Rightarrow> rat option \<Rightarrow> 'w manager \<Rightarrow> 'w outcome" where
  "manageTabs E act idx m =
     (if \<not> electronApp m then fail not_initialized m
      else if act = ''list'' then
        ok (''Open windows: '' @ string_of_nat (app_windows E (app m)) @ ''\<newline>Current: ''
            @ index_text (pages m) (currentPage m) 0) m
      else if act = ''new'' then
        (case app_firstWindow E (app m) of
           (Inl msg, w) \<Rightarrow> fail (Error msg) (m\<lparr>app := w\<rparr>)
         | (Inr newWindow, w) \<Rightarrow> ok ''New window created'' (m\<lparr>app := w, pages := pages m @ [newWindow]\<rparr>))
      else if act = ''close'' then
        (let finish = ok (''Closed window at index '' @ optional_number_text E idx) in
         case page_at (pages m) idx of
           None \<Rightarrow> finish m
         | Some (i, p) \<Rightarrow>
             step E ClosePage p m
               (\<lambda>m1. finish (m1\<lparr>pages := take i (pages m1) @ drop (Suc i) (pages m1)\<rparr>)))
      else if act = ''select'' then
        (let finish = ok (''Switched to window at index '' @ optional_number_text E idx) in
         case page_at (pages m) idx of
           None \<Rightarrow> finish m
         | Some (i, p) \<Rightarrow> step E BringToFront p (m\<lparr>currentPage := Some p\<rparr>) finish)
      else fail (Error (''Unknown tab action: '' @ act)) m)"

definition handleDialog :: "'w env \<Rightarrow> bool \<Rightarrow> string option \<Rightarrow> 'w manager \<Rightarrow> 'w outcome" where
  "handleDialog E accept promptText m =
     (case currentPage m of
        None \<Rightarrow> fail not_initialized m
      | Some p \<Rightarrow>
          step E (OnceDialog accept (the (js_or promptText (Some [])))) p m
            (ok (''Dialog handler set: '' @ (if accept then ''accept'' else ''dismiss''))))"

text \<open>
  \<open>waitFor\<close>: the three conditions are tried in order, each only when its argument is
  truthy (a string that is not empty, a number that is not zero); with none of them the
  handler throws.
\<close>

definition waitFor :: "'w env \<Rightarrow> string option \<Rightarrow> string option \<Rightarrow> rat option \<Rightarrow> 'w manager \<Rightarrow> 'w outcome" where
  "waitFor E txt textGone time m =
     (case currentPage m of
        None \<Rightarrow> fail not_initialized m
      | Some p \<Rightarrow>
          (case or_undefined txt of
             Some t \<Rightarrow>
               step E (WaitForSelector (''text='' @ t) False) p m (ok (''Waited for text: \"'' @ t @ ''\"''))
           | None \<Rightarrow>
               (case or_undefined textGone of
                  Some g \<Rightarrow>
                    step E (WaitForSelector (''text='' @ g) True) p m
                      (ok (''Waited for text to disappear: \"'' @ g @ ''\"''))
                | None \<Rightarrow>
                    (case time of
                       Some q \<Rightarrow>
                         (if q \<noteq> 0 then
                            step E (WaitForTimeout (q * 1000)) p m
                              (ok (''Waited for '' @ number_text E q @ '' seconds''))
                          else fail (Error ''No wait condition specified'') m)
                     | None \<Rightarrow> fail (Error ''No wait condition specified'') m))))"

definition resize :: "'w env \<Rightarrow> rat \<Rightarrow> rat \<Rightarrow> 'w manager \<Rightarrow> 'w outcome" where
  "resize E width height m =
     (case currentPage m of
        None \<Rightarrow> fail not_initialized m
      | Some p \<Rightarrow>
          step E (SetViewportSize width height) p m
            (ok (''Resized browser to '' @ number_text E width @ ''x'' @ number_text E height)))"

definition close :: "'w env \<Rightarrow> 'w manager \<Rightarrow> 'w outcome" where
  "close E m =
     (if electronApp m then
        (case app_close E (app m) of
           (Some msg, w) \<Rightarrow> fail (Error msg) (m\<lparr>app := w\<rparr>)
         | (None, w) \<Rightarrow>
             ok ''Browser closed'' (m\<lparr>app := w, electronApp := False, currentPage := None, pages := []\<rparr>))
      else ok ''Browser closed'' m)"

definition getNetworkRequests :: "'w env \<Rightarrow> 'w manager \<Rightarrow> 'w outcome" where
  "getNetworkRequests E m =
     ok (''Network requests ('' @ string_of_nat (length (networkRequests m)) @ ''):\<newline>''
         @ requests_json E (networkRequests m)) m"

definition getConsoleMessages :: "'w env \<Rightarrow> 'w manager \<Rightarrow> 'w outcome" where
  "getConsoleMessages E m =
     ok (''Console messages ('' @ string_of_nat (length (consoleMessages m)) @ ''):\<newline>''
         @ messages_json E (consoleMessages m)) m"

section \<open>Argument validation\<close>

text \<open>
  The raw arguments of a call are JSON; \<open>JUndefined\<close> stands for a value that is not
  there (an absent \<open>arguments\<close> field, a key an object does not have). An object lists its
  keys with their values; a key occurs once.
\<close>

datatype json =
    JUndefined
  | JNull
  | JBool bool
  | JNum rat
  | JStr string
  | JArr "json list"
  | JObj "(string \<times> json) list"

text \<open>The schemas the registry declares: \<open>z.string()\<close>, \<open>z.number()\<close>, \<open>z.boolean()\<close>,
  \<open>z.enum([...])\<close>, \<open>z.array(...)\<close>, \<open>z.object({...})\<close> and \<open>.optional()\<close>.\<close>

datatype zod =
    ZString
  | ZNumber
  | ZBoolean
  | ZEnum "string list"
  | ZArray zod
  | ZObject "(string \<times> zod) list"
  | ZOptional zod

text \<open>\<open>obj[key]\<close>.\<close>

definition get_field :: "json \<Rightarrow> string \<Rightarrow> json" where
  "get_field obj k =
     (case obj of
        JObj kvs \<Rightarrow> (case map_of kvs k of None \<Rightarrow> JUndefined | Some v \<Rightarrow> v)
      | _ \<Rightarrow> JUndefined)"

text \<open>
  The issues \<open>parse\<close> finds in a value, each with the path of the offending part: a value
  of the wrong type (a missing required value included), or a string outside an
  enumeration. All the keys of an object and all the items of an array are checked.
\<close>

fun issues :: "zod \<Rightarrow> path_elem list \<Rightarrow> json \<Rightarrow> zod_issue list" where
  "issues ZString path x = (case x of JStr _ \<Rightarrow> [] | _ \<Rightarrow> [Issue invalid_type path])"
| "issues ZNumber path x = (case x of JNum _ \<Rightarrow> [] | _ \<Rightarrow> [Issue invalid_type path])"
| "issues ZBoolean path x = (case x of JBool _ \<Rightarrow> [] | _ \<Rightarrow> [Issue invalid_type path])"
| "issues (ZEnum vs) path x =
     (case x of
        JStr s \<Rightarrow> (if s \<in> set vs then [] else [Issue invalid_enum_value path])
      | _ \<Rightarrow> [Issue invalid_type path])"
| "issues (ZArray z) path x =
     (case x of
        JArr xs \<Rightarrow> concat (map (\<lambda>(i, y). issues z (path @ [Index i]) y) (zip [0..<length xs] xs))
      | _ \<Rightarrow> [Issue invalid_type path])"
| "issues (ZObject shape) path x =
     (case x of
        JObj kvs \<Rightarrow> concat (map (\<lambda>kz. issues (snd kz) (path @ [Key (fst kz)]) (get_field x (fst kz))) shape)
      | _ \<Rightarrow> [Issue invalid_type path])"
| "issues (ZOptional z) path x = (case x of JUndefined \<Rightarrow> [] | _ \<Rightarrow> issues z path x)"

text \<open>The value \<open>parse\<close> returns for a valid input: an object keeps the keys of the shape
  that the input has, and no other key.\<close>

fun parsed :: "zod \<Rightarrow> json \<Rightarrow> json" where
  "parsed (ZArray z) x = (case x of JArr xs \<Rightarrow> JArr (map (parsed z) xs) | _ \<Rightarrow> x)"
| "parsed (ZObject shape) x =
     (case x of
        JObj kvs \<Rightarrow>
          JObj (map (\<lambda>kz. (fst kz, parsed (snd kz) (get_field x (fst kz))))
                 (filter (\<lambda>kz. get_field x (fst kz) \<noteq> JUndefined) shape))
      | _ \<Rightarrow> x)"
| "parsed (ZOptional z) x = (case x of JUndefined \<Rightarrow> JUndefined | _ \<Rightarrow> parsed z x)"
| "parsed z x = x"

text \<open>\<open>schema.parse(x)\<close>: the parsed value, or a \<open>ZodError\<close> carrying the issues.\<close>

definition parse :: "zod \<Rightarrow> json \<Rightarrow> js_error + json" where
  "parse z x = (if issues z [] x = [] then Inr (parsed z x) else Inl (ZodError (issues z [] x)))"

section \<open>The tool registry\<close>

definition NavigateSchema :: zod where
  "NavigateSchema = ZObject [(''url'', ZString)]"

definition ClickSchema :: zod where
  "ClickSchema = ZObject [(''element'', ZString), (''ref'', ZString)]"

definition TypeSchema :: zod where
  "TypeSchema = ZObject [(''element'', ZString), (''ref'', ZString), (''text'', ZString),
     (''slowly'', ZOptional ZBoolean), (''submit'', ZOptional ZBoolean)]"

definition PressKeySchema :: zod where
  "PressKeySchema = ZObject [(''key'', ZString)]"

definition FillFormSchema :: zod where
  "FillFormSchema = ZObject [(''fields'', ZArray (ZObject [(''name'', ZString), (''type'', ZString),
     (''ref'', ZString), (''value'', ZString)]))]"

definition SelectOptionSchema :: zod where
  "SelectOptionSchema = ZObject [(''element'', ZString), (''ref'', ZString), (''values'', ZArray ZString)]"

definition HoverSchema :: zod where
  "HoverSchema = ZObject [(''element'', ZString), (''ref'', ZString)]"

definition DragSchema :: zod where
  "DragSchema = ZObject [(''startElement'', ZString), (''startRef'', ZString),
     (''endElement'', ZString), (''endRef'', ZString)]"

definition TakeScreenshotSchema :: zod where
  "TakeScreenshotSchema = ZObject [(''filename'', ZOptional ZString), (''element'', ZOptional ZString),
     (''ref'', ZOptional ZString), (''fullPage'', ZOptional ZBoolean),
     (''type'', ZOptional (ZEnum [''png'', ''jpeg'']))]"

definition EvaluateSchema :: zod where
  "EvaluateSchema = ZObject [(''function'', ZString), (''element'', ZOptional ZString),
     (''ref'', ZOptional ZString)]"

definition FileUploadSchema :: zod where
  "FileUploadSchema = ZObject [(''paths'', ZArray ZString)]"

definition ManageTabsSchema :: zod where
  "ManageTabsSchema = ZObject [(''action'', ZEnum [''list'', ''new'', ''close'', ''select'']),
     (''index'', ZOptional ZNumber)]"

definition HandleDialogSchema :: zod where
  "HandleDialogSchema = ZObject [(''accept'', ZBoolean), (''promptText'', ZOptional ZString)]"

definition WaitForSchema :: zod where
  "WaitForSchema = ZObject [(''text'', ZOptional ZString), (''textGone'', ZOptional ZString),
     (''time'', ZOptional ZNumber)]"

definition ResizeSchema :: zod where
  "ResizeSchema = ZObject [(''width'', ZNumber), (''height'', ZNumber)]"

text \<open>
  Reading the fields of validated arguments. A required field has the type its schema
  declares, so the fallback of \<open>str\<close>, \<open>num\<close>, \<open>flag\<close> and \<open>strs\<close> is never taken there; an
  optional field that is not there is \<open>None\<close>.
\<close>

definition str :: "json \<Rightarrow> string \<Rightarrow> string" where
  "str args k = (case get_field args k of JStr s \<Rightarrow> s | _ \<Rightarrow> [])"

definition opt_str :: "json \<Rightarrow> string \<Rightarrow> string option" where
  "opt_str args k = (case get_field args k of JStr s \<Rightarrow> Some s | _ \<Rightarrow> None)"

definition num :: "json \<Rightarrow> string \<Rightarrow> rat" where
  "num args k = (case get_field args k of JNum q \<Rightarrow> q | _ \<Rightarrow> 0)"

definition opt_num :: "json \<Rightarrow> string \<Rightarrow> rat option" where
  "opt_num args k = (case get_field args k of JNum q \<Rightarrow> Some q | _ \<Rightarrow> None)"

definition flag :: "json \<Rightarrow> string \<Rightarrow> bool" where
  "flag args k = (case get_field args k of JBool b \<Rightarrow> b | _ \<Rightarrow> False)"

definition opt_bool :: "json \<Rightarrow> string \<Rightarrow> bool option" where
  "opt_bool args k = (case get_field args k of JBool b \<Rightarrow> Some b | _ \<Rightarrow> None)"

definition strs :: "json \<Rightarrow> string \<Rightarrow> string list" where
  "strs args k =
     (case get_field args k of
        JArr xs \<Rightarrow> map (\<lambda>x. case x of JStr s \<Rightarrow> s | _ \<Rightarrow> []) xs
      | _ \<Rightarrow> [])"

definition form_fields :: "json \<Rightarrow> string \<Rightarrow> form_field list" where
  "form_fields args k =
     (case get_field args k of
        JArr xs \<Rightarrow> map (\<lambda>x. Field (str x ''name'') (str x ''type'') (str x ''ref'') (str x ''value'')) xs
      | _ \<Rightarrow> [])"

record 'w ToolDefinition =
  description :: string
  schema :: zod
  handler :: "'w env \<Rightarrow> json \<Rightarrow> 'w manager \<Rightarrow> 'w outcome"

definition createTool :: "string \<Rightarrow> zod \<Rightarrow> ('w env \<Rightarrow> json \<Rightarrow> 'w manager \<Rightarrow> 'w outcome) \<Rightarrow> 'w ToolDefinition" where
  "createTool d z h = \<lparr> description = d, schema = z, handler = h \<rparr>"

definition TOOL_REGISTRY :: "(string \<times> 'w ToolDefinition) list" where
  "TOOL_REGISTRY =
     [(''browser_navigate'',
        createTool ''Navigate to URLs or switch between Electron renderer processes'' NavigateSchema
          (\<lambda>E args. navigate E (str args ''url''))),
      (''browser_navigate_back'',
        createTool ''Go back to previous page in browser history'' (ZObject [])
          (\<lambda>E args. navigateBack E)),
      (''browser_click'',
        createTool ''Click on elements using element description and ref ID'' ClickSchema
          (\<lambda>E args. click E (str args ''element'') (str args ''ref''))),
      (''browser_type'',
        createTool ''Type text into editable elements'' TypeSchema
          (\<lambda>E args. type_text E (str args ''element'') (str args ''ref'') (str args ''text'')
             (opt_bool args ''slowly'') (opt_bool args ''submit''))),
      (''browser_press_key'',
        createTool ''Press keyboard keys'' PressKeySchema
          (\<lambda>E args. pressKey E (str args ''key''))),
      (''browser_fill_form'',
        createTool ''Fill multiple form fields at once'' FillFormSchema
          (\<lambda>E args. fillForm E (form_fields args ''fields''))),
      (''browser_select_option'',
        createTool ''Select options in dropdown menus'' SelectOptionSchema
          (\<lambda>E args. selectOption E (str args ''element'') (str args ''ref'') (strs args ''values''))),
      (''browser_hover'',
        createTool ''Hover over elements'' HoverSchema
          (\<lambda>E args. hover E (str args ''element'') (str args ''ref''))),
      (''browser_drag'',
        createTool ''Perform drag and drop operations between elements'' DragSchema
          (\<lambda>E args. drag E (str args ''startElement'') (str args ''startRef'')
             (str args ''endElement'') (str args ''endRef''))),
      (''browser_snapshot'',
        createTool ''Capture accessibility snapshot of current page'' (ZObject [])
          (\<lambda>E args. snapshot E)),
      (''browser_take_screenshot'',
        createTool ''Take screenshots of viewport or specific elements'' TakeScreenshotSchema
          (\<lambda>E args. takeScreenshot E (opt_str args ''filename'') (opt_str args ''element'')
             (opt_str args ''ref'') (opt_bool args ''fullPage'') (opt_str args ''type''))),
      (''browser_evaluate'',
        createTool ''Execute JavaScript expressions on the page'' EvaluateSchema
          (\<lambda>E args. evaluate E (str args ''function'') (opt_str args ''element'') (opt_str args ''ref''))),
      (''browser_file_upload'',
        createTool ''Upload files to file input elements'' FileUploadSchema
          (\<lambda>E args. fileUpload E (strs args ''paths''))),
      (''browser_tabs'',
        createTool ''List, create, close, or select browser tabs'' ManageTabsSchema
          (\<lambda>E args. manageTabs E (str args ''action'') (opt_num args ''index''))),
      (''browser_handle_dialog'',
        createTool ''Handle browser dialogs (alerts, confirms, prompts)'' HandleDialogSchema
          (\<lambda>E args. handleDialog E (flag args ''accept'') (opt_str args ''promptText''))),
      (''browser_wait_for'',
        createTool ''Wait for specific conditions'' WaitForSchema
          (\<lambda>E args. waitFor E (opt_str args ''text'') (opt_str args ''textGone'') (opt_num args ''time''))),
      (''browser_resize'',
        createTool ''Resize browser window'' ResizeSchema
          (\<lambda>E args. resize E (num args ''width'') (num args ''height''))),
      (''browser_close'',
        createTool ''Close the browser'' (ZObject [])
          (\<lambda>E args. close E)),
      (''browser_network_requests'',
        createTool ''Returns all network requests since page load'' (ZObject [])
          (\<lambda>E args. getNetworkRequests E)),
      (''browser_console_messages'',
        createTool ''Returns all console log messages'' (ZObject [])
          (\<lambda>E args. getConsoleMessages E))]"

text \<open>\<open>isToolName\<close>: the name is an own key of the registry; \<open>getTool\<close>: its entry.\<close>

definition isToolName :: "string \<Rightarrow> bool" where
  "isToolName n = (n \<in> set (map fst (TOOL_REGISTRY :: (string \<times> unit ToolDefinition) list)))"

definition getTool :: "string \<Rightarrow> 'w ToolDefinition option" where
  "getTool n = map_of TOOL_REGISTRY n"

section \<open>The dispatcher\<close>

text \<open>\<open>error instanceof Error ? error.message : String(error)\<close>.\<close>

definition message :: "'w env \<Rightarrow> js_error \<Rightarrow> string" where
  "message E e =
     (case e of
        Error msg \<Rightarrow> msg
      | TypeError msg \<Rightarrow> msg
      | ZodError is \<Rightarrow> zod_message E is
      | McpError c msg \<Rightarrow> msg)"

text \<open>The \<open>catch\<close> clause: an \<open>McpError\<close> is thrown again as it is; anything else becomes
  an \<open>McpError\<close> with the code \<open>InternalError\<close>.\<close>

definition catch_clause :: "'w env \<Rightarrow> js_error \<Rightarrow> js_error" where
  "catch_clause E e =
     (case e of
        McpError c msg \<Rightarrow> e
      | _ \<Rightarrow> McpError InternalError (''Tool execution failed: '' @ message E e))"

text \<open>
  The body of the \<open>try\<close>: look the tool up, parse \<open>args ?? {}\<close>, parse \<open>args\<close> itself, run
  the handler on the first parsed value, and copy the content blocks of its result.
\<close>

definition try_body :: "'w env \<Rightarrow> string \<Rightarrow> (string \<times> json) list option \<Rightarrow> 'w manager \<Rightarrow> 'w outcome" where
  "try_body E n args m =
     (if \<not> isToolName n then (Inl (McpError MethodNotFound (''Unknown tool: '' @ n)), m)
      else
        (case getTool n of
           None \<Rightarrow> (Inl (McpError MethodNotFound (''Unknown tool: '' @ n)), m)
         | Some tool \<Rightarrow>
             (case parse (schema tool) (case args of None \<Rightarrow> JObj [] | Some kvs \<Rightarrow> JObj kvs) of
                Inl e \<Rightarrow> (Inl e, m)
              | Inr validatedArgs \<Rightarrow>
                  (case parse (schema tool) (case args of None \<Rightarrow> JUndefined | Some kvs \<Rightarrow> JObj kvs) of
                     Inl e \<Rightarrow> (Inl e, m)
                   | Inr validatedArgs2 \<Rightarrow>
                       (case handler tool E validatedArgs m of
                          (Inl e, m') \<Rightarrow> (Inl e, m')
                        | (Inr result, m') \<Rightarrow>
                            (Inr (map (\<lambda>item. Block (block_type item) (block_text item)) result), m'))))))"

text \<open>The request handler for a tool call, with the name and the optional arguments of the
  request.\<close>

definition call_tool :: "'w env \<Rightarrow> string \<Rightarrow> (string \<times> json) list option \<Rightarrow> 'w manager \<Rightarrow> 'w outcome" where
  "call_tool E n args m =
     (case try_body E n args m of
        (Inl e, m') \<Rightarrow> (Inl (catch_clause E e), m')
      | (Inr r, m') \<Rightarrow> (Inr r, m'))"

section \<open>A concrete application\<close>

text \<open>
  An application with one window, used to run the handlers on concrete inputs: its state is
  the body of the window's document and the list of calls issued so far. Every call
  succeeds and is appended to the list. Of the scripts a caller can send, the engine knows
  one, \<open>probe\<close>: a function that returns 1 when it is given an element and 0 when it is
  given none. Run in the page it receives no element and gives 0; run on a located element
  it gives 1. Any other source is rejected.
\<close>

definition probe :: string where
  "probe = ''(el) => el ? 1 : 0''"

record demo_app =
  demo_body :: "node option"
  demo_calls :: "action list"

definition demo_env :: "demo_app env" where
  "demo_env =
     \<lparr> page_exec = (\<lambda>a p w. (None, w\<lparr>demo_calls := demo_calls w @ [a]\<rparr>)),
       page_title = (\<lambda>p w. Inr ''Demo''),
       page_url = (\<lambda>p w. ''app://demo''),
       page_body = (\<lambda>p w. Inr (demo_body w)),
       page_evaluate = (\<lambda>f p w. (if f = probe then Inr ''0'' else Inl ''unknown function'', w)),
       locator_evaluate = (\<lambda>sel f p w. (if f = probe then Inr ''1'' else Inl ''unknown function'', w)),
       make_function = (\<lambda>src. if src = ''return '' @ probe then Inr probe else Inl ''unknown source''),
       file_inputs = (\<lambda>p w. Inr 0),
       app_windows = (\<lambda>w. 1),
       app_firstWindow = (\<lambda>w. (Inr 0, w)),
       app_close = (\<lambda>w. (None, w)),
       now_iso = (\<lambda>w. ''2025-01-01T00:00:00.000Z''),
       path_join = (\<lambda>d f. d @ ''/'' @ f),
       number_text = (\<lambda>q. ''n''),
       requests_json = (\<lambda>rs. ''[]''),
       messages_json = (\<lambda>ms. ''[]''),
       zod_message = (\<lambda>is. ''issues'') \<rparr>"

text \<open>The manager after \<open>initBrowserManager\<close> on that application, and the manager as the
  constructor leaves it.\<close>

definition demo_manager :: "node option \<Rightarrow> demo_app manager" where
  "demo_manager b =
     \<lparr> electronApp = True, currentPage = Some 0, pages = [0], networkRequests = [],
       consoleMessages = [], screenshotDir = ''/tmp/electron-mcp'', elementRefMap = Map.empty,
       refCounter = 100, app = \<lparr> demo_body = b, demo_calls = [] \<rparr> \<rparr>"

definition fresh_manager :: "node option \<Rightarrow> demo_app manager" where
  "fresh_manager b = (demo_manager b)\<lparr>electronApp := False, currentPage := None, pages := []\<rparr>"

text \<open>The same manager after a snapshot that recorded one element, \<open>e100\<close>, with the
  selector \<open>#a\<close>.\<close>

definition ref_manager :: "demo_app manager" where
  "ref_manager = (demo_manager None)\<lparr>elementRefMap := [''e100'' \<mapsto> ''#a'']\<rparr>"

text \<open>A page whose body holds one button labelled "Submit" and nothing else, and the
  manager of an application showing it.\<close>

definition submit_page :: node where
  "submit_page =
     Element ''BODY'' [] None None [Element ''BUTTON'' [] (Some ''submit'') (Some []) [Text ''Submit'']]"

definition submit_manager :: "demo_app manager" where
  "submit_manager = demo_manager (Some submit_page)"

text \<open>The manager on that page with a Ref Map left by an earlier, larger snapshot.\<close>

definition stale_manager :: "demo_app manager" where
  "stale_manager = submit_manager\<lparr>elementRefMap := [''e100'' \<mapsto> ''#old'', ''e105'' \<mapsto> ''#gone'']\<rparr>"

section \<open>Reference notions for the snapshot\<close>

text \<open>
  The elements of a document in pre-order (an element before its descendants, siblings in
  document order), each with its nesting depth. This listing is independent of
  \<open>processElement\<close>; the properties below compare the two.
\<close>

fun document_preorder :: "node \<Rightarrow> nat \<Rightarrow> (node \<times> nat) list" where
  "document_preorder (Text s) d = []"
| "document_preorder (Element tg as ty v cs) d =
     (Element tg as ty v cs, d) # concat (map (\<lambda>c. document_preorder c (d + 1)) (filter isElement cs))"

text \<open>The entries of a list of elements numbered consecutively from a counter value.\<close>

definition number_entries :: "nat \<Rightarrow> (node \<times> nat) list \<Rightarrow> ElementSnapshot list" where
  "number_entries k xs = map (\<lambda>(i, (el, d)). entry el i d) (zip [k..<k + length xs] xs)"

text \<open>Reading a decimal numeral back, to tell the references of different counter values
  apart.\<close>

definition digit_val :: "char \<Rightarrow> nat" where
  "digit_val c = of_char c - 48"

definition nat_of_digits :: "string \<Rightarrow> nat" where
  "nat_of_digits s = foldl (\<lambda>a c. 10 * a + digit_val c) 0 s"

text \<open>The elements a snapshot records: those of the pre-order listing that satisfy the
  inclusion condition.\<close>

definition captured :: "node \<Rightarrow> nat \<Rightarrow> (node \<times> nat) list" where
  "captured el d = filter (\<lambda>(e, _). included e) (document_preorder el d)"

text \<open>
  Pages that hold one button and nothing else that a snapshot could record. A node is
  silent when it is white space, or an element outside the fixed set of tags whose child
  nodes are all silent. A layer is an ancestor of the button: its tag, attributes, \<open>type\<close>
  and \<open>value\<close>, and the child nodes before and after the one child that leads to the
  button; it is quiet when those other child nodes are silent. \<open>wrap\<close> builds the page
  from the layers, outermost (the body) first, and \<open>ancestors\<close> lists the ancestors of the
  button in that page, outermost first.
\<close>

fun silent :: "node \<Rightarrow> bool" where
  "silent (Text s) = list_all isSpace s"
| "silent (Element tg as ty v cs) = (toLowerCase tg \<notin> set included_tags \<and> list_all silent cs)"

datatype layer =
  Layer string "(string \<times> string) list" "string option" "string option" "node list" "node list"

fun quiet :: "layer \<Rightarrow> bool" where
  "quiet (Layer tg as ty v before after) = (list_all silent before \<and> list_all silent after)"

fun wrap :: "layer list \<Rightarrow> node \<Rightarrow> node" where
  "wrap [] b = b"
| "wrap (Layer tg as ty v before after # ls) b = Element tg as ty v (before @ [wrap ls b] @ after)"

fun ancestors :: "layer list \<Rightarrow> node \<Rightarrow> node list" where
  "ancestors [] b = []"
| "ancestors (l # ls) b = wrap (l # ls) b # ancestors ls b"

section \<open>Properties of the handlers\<close>

text \<open>
  C9. \<open>navigate\<close> is the one handler that reads the active page without checking it: on
  a manager with no active page it throws the \<open>TypeError\<close> of a property read on \<open>null\<close>,
  not the "Browser not initialized" error.
\<close>

theorem navigate_without_page:
  "navigate demo_env [] (fresh_manager None)
     = (Inl (TypeError ''Cannot read properties of null (reading 'title')''), fresh_manager None)"
  by (simp add: navigate_def fresh_manager_def demo_manager_def fail_def)

text \<open>Every other handler that uses the active page checks it first.\<close>

lemma guarded_handlers_not_initialized:
  assumes "currentPage m = None"
  shows "navigateBack E m = (Inl (Error ''Browser not initialized''), m)"
    and "click E el r m = (Inl (Error ''Browser not initialized''), m)"
    and "type_text E el r t sl su m = (Inl (Error ''Browser not initialized''), m)"
    and "pressKey E k m = (Inl (Error ''Browser not initialized''), m)"
    and "fillForm E fs m = (Inl (Error ''Browser not initialized''), m)"
    and "selectOption E el r vs m = (Inl (Error ''Browser not initialized''), m)"
    and "hover E el r m = (Inl (Error ''Browser not initialized''), m)"
    and "drag E a b c d m = (Inl (Error ''Browser not initialized''), m)"
    and "snapshot E m = (Inl (Error ''Browser not initialized''), m)"
    and "takeScreenshot E fn elo ro fp ty m = (Inl (Error ''Browser not initialized''), m)"
    and "evaluate E f elo ro m = (Inl (Error ''Browser not initialized''), m)"
    and "fileUpload E ps m = (Inl (Error ''Browser not initialized''), m)"
    and "handleDialog E ac pt m = (Inl (Error ''Browser not initialized''), m)"
    and "waitFor E tx tg ti m = (Inl (Error ''Browser not initialized''), m)"
    and "resize E w h m = (Inl (Error ''Browser not initialized''), m)"
  using assms
  by (simp_all add: navigateBack_def click_def type_text_def pressKey_def fillForm_def
      selectOption_def hover_def drag_def snapshot_def takeScreenshot_def evaluate_def
      fileUpload_def handleDialog_def waitFor_def resize_def fail_def not_initialized_def)

lemma navigate_url_without_page:
  "currentPage m = None \<Longrightarrow> url \<noteq> [] \<Longrightarrow>
   navigate E url m = (Inl (TypeError ''Cannot read properties of null (reading 'goto')''), m)"
  by (simp add: navigate_def fail_def)




text \<open>
  C8, as the claim states it, fails when both \<open>element\<close> and \<open>ref\<close> are supplied and one of
  them is the empty string: the reference resolves, and the function still runs in the
  page, where it receives no element and gives 0, not on the element.
\<close>

theorem evaluate_empty_element_counterexample:
  "lookup_selector ref_manager ''e100'' = Some ''#a'' \<and>
   evaluate demo_env ''(el) => el ? 1 : 0'' (Some []) (Some ''e100'') ref_manager
     = (Inr [Block ''text'' ''JavaScript evaluation result: 0''], ref_manager)"
  by (simp add: ref_manager_def demo_manager_def evaluate_def lookup_selector_def or_undefined_def
      truthy_def demo_env_def probe_def evaluation_result_def ok_def text_result_def)

text \<open>
  C8, amended. On a manager with an active page, \<open>evaluate\<close> runs the function on the
  element located by the selector of \<open>ref\<close> when \<open>element\<close> and \<open>ref\<close> are both supplied
  and not empty and the reference resolves; whenever \<open>element\<close> or \<open>ref\<close> is missing or
  empty (neither supplied, only one supplied, or an empty string) it runs the function in
  the page, and the Ref Map is not consulted.
\<close>

theorem evaluate_scope:
  "currentPage m = Some p \<Longrightarrow>
     (\<not> (truthy el \<and> truthy ro) \<longrightarrow>
        evaluate E f el ro m =
          (case make_function E (''return '' @ f) of
             Inl msg \<Rightarrow> (Inl (Error (''JavaScript evaluation failed: '' @ msg)), m)
           | Inr func \<Rightarrow> evaluation_result (page_evaluate E func p (app m)) m))
   \<and> (e \<noteq> [] \<and> r \<noteq> [] \<and> lookup_selector m r = Some sel \<longrightarrow>
        evaluate E f (Some e) (Some r) m = evaluation_result (locator_evaluate E sel f p (app m)) m)"
  by (auto simp add: evaluate_def or_undefined_def truthy_def fail_def evaluation_failed_def
      split: option.splits sum.splits)

theorem evaluate_scope_witness:
  "currentPage ref_manager = Some 0
   \<and> \<not> (truthy None \<and> truthy (Some ''e100''))
   \<and> evaluate demo_env ''(el) => el ? 1 : 0'' None (Some ''e100'') ref_manager
       = (Inr [Block ''text'' ''JavaScript evaluation result: 0''], ref_manager)
   \<and> lookup_selector ref_manager ''e100'' = Some ''#a''
   \<and> evaluate demo_env ''(el) => el ? 1 : 0'' (Some ''button'') (Some ''e100'') ref_manager
       = (Inr [Block ''text'' ''JavaScript evaluation result: 1''], ref_manager)"
proof -
  have page: "currentPage ref_manager = Some 0"
    by (simp add: ref_manager_def demo_manager_def)
  have sel: "lookup_selector ref_manager ''e100'' = Some ''#a''"
    by (simp add: ref_manager_def demo_manager_def lookup_selector_def or_undefined_def truthy_def)
  have app: "app ref_manager = \<lparr>demo_body = None, demo_calls = []\<rparr>"
    by (simp add: ref_manager_def demo_manager_def)
  have same: "ref_manager\<lparr>app := \<lparr>demo_body = None, demo_calls = []\<rparr>\<rparr> = ref_manager"
    by (simp add: ref_manager_def demo_manager_def)
  show ?thesis
    using page sel same
      evaluate_scope [OF page, of None "Some ''e100''" demo_env "''(el) => el ? 1 : 0''"
        "''button''" "''e100''" "''#a''"]
    by (simp add: truthy_def demo_env_def probe_def evaluation_result_def ok_def text_result_def app)
qed

section \<open>Properties of the dispatcher\<close>

lemma registry_names:
  "map fst (TOOL_REGISTRY :: (string \<times> 'w ToolDefinition) list) =
     [''browser_navigate'', ''browser_navigate_back'', ''browser_click'', ''browser_type'',
      ''browser_press_key'', ''browser_fill_form'', ''browser_select_option'', ''browser_hover'',
      ''browser_drag'', ''browser_snapshot'', ''browser_take_screenshot'', ''browser_evaluate'',
      ''browser_file_upload'', ''browser_tabs'', ''browser_handle_dialog'', ''browser_wait_for'',
      ''browser_resize'', ''browser_close'', ''browser_network_requests'',
      ''browser_console_messages'']"
  by (simp add: TOOL_REGISTRY_def)

lemma isToolName_getTool: "isToolName n \<longleftrightarrow> (getTool n :: 'w ToolDefinition option) \<noteq> None"
proof -
  have "(getTool n :: 'w ToolDefinition option) \<noteq> None
        \<longleftrightarrow> n \<in> set (map fst (TOOL_REGISTRY :: (string \<times> 'w ToolDefinition) list))"
    by (simp add: getTool_def map_of_eq_None_iff)
  then show ?thesis
    unfolding isToolName_def by (simp only: registry_names)
qed

text \<open>Every schema of the registry is an object schema.\<close>

lemma registry_schemas:
  "(getTool n :: 'w ToolDefinition option) = Some tool \<Longrightarrow> \<exists>shape. schema tool = ZObject shape"
  unfolding getTool_def TOOL_REGISTRY_def
  by (auto simp add: createTool_def NavigateSchema_def ClickSchema_def TypeSchema_def PressKeySchema_def
      FillFormSchema_def SelectOptionSchema_def HoverSchema_def DragSchema_def TakeScreenshotSchema_def
      EvaluateSchema_def FileUploadSchema_def ManageTabsSchema_def HandleDialogSchema_def
      WaitForSchema_def ResizeSchema_def split: if_splits)

lemma take_append_prefix:
  assumes "take (length (p @ q)) xs = p @ q"
  shows "take (length p) xs = p"
proof -
  have "take (length p) xs = take (length p) (take (length (p @ q)) xs)"
    by (simp add: min_def)
  also have "\<dots> = p" unfolding assms by simp
  finally show ?thesis .
qed

text \<open>The path of an issue extends the path its value was checked at.\<close>

lemma issues_prefix:
  "i \<in> set (issues z path x) \<Longrightarrow> take (length path) (issue_path i) = path"
proof (induction z path x arbitrary: i rule: issues.induct)
  case (5 z path x)
  show ?case
  proof (cases x)
    case (JArr xs)
    with "5.prems" obtain k y where ky: "(k, y) \<in> set (zip [0..<length xs] xs)"
      and i: "i \<in> set (issues z (path @ [Index k]) y)"
      by auto
    have "take (length (path @ [Index k])) (issue_path i) = path @ [Index k]"
      using "5.IH" [OF JArr ky refl i] .
    then show ?thesis by (rule take_append_prefix)
  qed (use "5.prems" in auto)
next
  case (6 shape path x)
  show ?case
  proof (cases x)
    case (JObj kvs)
    with "6.prems" obtain kz where kz: "kz \<in> set shape"
      and i: "i \<in> set (issues (snd kz) (path @ [Key (fst kz)]) (get_field x (fst kz)))"
      by auto
    have "take (length (path @ [Key (fst kz)])) (issue_path i) = path @ [Key (fst kz)]"
      using "6.IH" [OF JObj kz i] .
    then show ?thesis by (rule take_append_prefix)
  qed (use "6.prems" in auto)
qed (auto split: json.splits if_splits)

text \<open>An issue found in an object starts its path with a key of the shape: it names the
  field that is missing or wrong.\<close>

lemma object_issue_names_field:
  assumes "i \<in> set (issues (ZObject shape) [] (JObj kvs))"
  shows "\<exists>k rest. k \<in> fst ` set shape \<and> issue_path i = Key k # rest"
proof -
  from assms obtain kz where kz: "kz \<in> set shape"
    and i: "i \<in> set (issues (snd kz) [Key (fst kz)] (get_field (JObj kvs) (fst kz)))"
    by auto
  have "take (length [Key (fst kz)]) (issue_path i) = [Key (fst kz)]"
    using issues_prefix [OF i] .
  then have "\<exists>rest. issue_path i = Key (fst kz) # rest"
    by (cases "issue_path i") auto
  with kz show ?thesis by force
qed

text \<open>With absent arguments the second \<open>parse\<close> receives \<open>undefined\<close>, which no object
  schema accepts: a tool whose schema accepts the empty object fails there.\<close>

lemma absent_arguments_rejected:
  assumes "(getTool n :: 'w ToolDefinition option) = Some tool"
    and "schema tool = ZObject []"
  shows "call_tool (E :: 'w env) n None m =
      (Inl (McpError InternalError
         (''Tool execution failed: '' @ zod_message E [Issue invalid_type []])), m)"
proof -
  have "isToolName n"
    using assms(1) isToolName_getTool [where 'w = 'w, of n] by simp
  then show ?thesis
    using assms
    by (simp add: call_tool_def try_body_def parse_def catch_clause_def message_def)
qed

text \<open>With the empty object as arguments the same tools pass both validations, and the
  handler runs on the manager.\<close>

lemma empty_object_accepted:
  assumes "(getTool n :: 'w ToolDefinition option) = Some tool"
    and "schema tool = ZObject []"
  shows "call_tool (E :: 'w env) n (Some []) m =
      (case handler tool E (JObj []) m of
         (Inl e, m') \<Rightarrow> (Inl (catch_clause E e), m')
       | (Inr r, m') \<Rightarrow> (Inr r, m'))"
proof -
  have "isToolName n"
    using assms(1) isToolName_getTool [where 'w = 'w, of n] by simp
  then show ?thesis
    using assms
    by (simp add: call_tool_def try_body_def parse_def split: prod.splits sum.splits)
qed

text \<open>
  C1. With the \<open>arguments\<close> field absent, a call of \<open>browser_snapshot\<close>,
  \<open>browser_navigate_back\<close>, \<open>browser_close\<close>, \<open>browser_network_requests\<close> or
  \<open>browser_console_messages\<close> does not reach its handler: the second \<open>parse\<close>, which is
  given \<open>args\<close> and not \<open>args ?? {}\<close>, rejects \<open>undefined\<close>, and the call fails with an
  \<open>InternalError\<close> on an unchanged manager.
\<close>

theorem absent_arguments_fail_validation:
  "call_tool E ''browser_snapshot'' None m
     = (Inl (McpError InternalError (''Tool execution failed: '' @ zod_message E [Issue invalid_type []])), m)
   \<and> call_tool E ''browser_navigate_back'' None m
     = (Inl (McpError InternalError (''Tool execution failed: '' @ zod_message E [Issue invalid_type []])), m)
   \<and> call_tool E ''browser_close'' None m
     = (Inl (McpError InternalError (''Tool execution failed: '' @ zod_message E [Issue invalid_type []])), m)
   \<and> call_tool E ''browser_network_requests'' None m
     = (Inl (McpError InternalError (''Tool execution failed: '' @ zod_message E [Issue invalid_type []])), m)
   \<and> call_tool E ''browser_console_messages'' None m
     = (Inl (McpError InternalError (''Tool execution failed: '' @ zod_message E [Issue invalid_type []])), m)"
proof -
  have t1: "getTool ''browser_snapshot''
      = Some (createTool ''Capture accessibility snapshot of current page'' (ZObject [])
          (\<lambda>(E :: 'a env) args. snapshot E))"
    by (simp add: getTool_def TOOL_REGISTRY_def)
  have t2: "getTool ''browser_navigate_back''
      = Some (createTool ''Go back to previous page in browser history'' (ZObject [])
          (\<lambda>(E :: 'a env) args. navigateBack E))"
    by (simp add: getTool_def TOOL_REGISTRY_def)
  have t3: "getTool ''browser_close''
      = Some (createTool ''Close the browser'' (ZObject []) (\<lambda>(E :: 'a env) args. close E))"
    by (simp add: getTool_def TOOL_REGISTRY_def)
  have t4: "getTool ''browser_network_requests''
      = Some (createTool ''Returns all network requests since page load'' (ZObject [])
          (\<lambda>(E :: 'a env) args. getNetworkRequests E))"
    by (simp add: getTool_def TOOL_REGISTRY_def)
  have t5: "getTool ''browser_console_messages''
      = Some (createTool ''Returns all console log messages'' (ZObject [])
          (\<lambda>(E :: 'a env) args. getConsoleMessages E))"
    by (simp add: getTool_def TOOL_REGISTRY_def)
  have s: "schema (createTool d (ZObject []) h) = ZObject []" for d and h :: "'a env \<Rightarrow> json \<Rightarrow> 'a manager \<Rightarrow> 'a outcome"
    by (simp add: createTool_def)
  show ?thesis
    using absent_arguments_rejected [OF t1 s] absent_arguments_rejected [OF t2 s]
      absent_arguments_rejected [OF t3 s] absent_arguments_rejected [OF t4 s]
      absent_arguments_rejected [OF t5 s]
    by blast
qed

text \<open>
  C5, as the claim states it, fails: \<open>browser_click\<close> without its required \<open>ref\<close> is
  rejected by \<open>parse\<close> with an issue at the path \<open>ref\<close>, but the error that reaches the
  caller has the code \<open>InternalError\<close> and the message of an execution failure.
\<close>

theorem invalid_arguments_counterexample:
  "issues ClickSchema [] (JObj [(''element'', JStr ''Submit'')]) = [Issue invalid_type [Key ''ref'']]
   \<and> call_tool demo_env ''browser_click'' (Some [(''element'', JStr ''Submit'')]) ref_manager
       = (Inl (McpError InternalError ''Tool execution failed: issues''), ref_manager)"
proof -
  have tool: "getTool ''browser_click''
      = Some (createTool ''Click on elements using element description and ref ID'' ClickSchema
          (\<lambda>(E :: demo_app env) args. click E (str args ''element'') (str args ''ref'')))"
    by (simp add: getTool_def TOOL_REGISTRY_def)
  have name: "isToolName ''browser_click''"
    by (simp add: isToolName_def registry_names)
  have iss: "issues ClickSchema [] (JObj [(''element'', JStr ''Submit'')]) = [Issue invalid_type [Key ''ref'']]"
    by (simp add: ClickSchema_def get_field_def)
  show ?thesis
    using iss
    by (simp add: call_tool_def try_body_def name tool createTool_def parse_def catch_clause_def
        message_def demo_env_def)
qed

text \<open>
  C5, amended. When the raw arguments of a registered tool, taken as the empty object when
  the \<open>arguments\<close> field is absent, violate its schema, the call fails before the handler
  runs, on an unchanged manager, with an \<open>McpError\<close> whose code is \<open>InternalError\<close> and whose
  message is "Tool execution failed: " followed by the message of the \<open>ZodError\<close>. Each
  issue of that error is one that the schema of a field of the shape finds in the value
  the arguments have for that field, and its path starts with the name of that field. The
  error has the same code and prefix as an execution failure.
\<close>

theorem validation_failure_wrapped:
  "(getTool n :: 'w ToolDefinition option) = Some tool \<Longrightarrow>
   issues (schema tool) [] (case args of None \<Rightarrow> JObj [] | Some kvs \<Rightarrow> JObj kvs) \<noteq> [] \<Longrightarrow>
     call_tool (E :: 'w env) n args m
       = (Inl (McpError InternalError
            (''Tool execution failed: '' @ zod_message E
               (issues (schema tool) [] (case args of None \<Rightarrow> JObj [] | Some kvs \<Rightarrow> JObj kvs)))), m)
   \<and> (\<exists>shape. schema tool = ZObject shape
        \<and> (\<forall>i \<in> set (issues (schema tool) [] (case args of None \<Rightarrow> JObj [] | Some kvs \<Rightarrow> JObj kvs)).
             \<exists>k z rest. (k, z) \<in> set shape \<and> issue_path i = Key k # rest
               \<and> i \<in> set (issues z [Key k]
                     (get_field (case args of None \<Rightarrow> JObj [] | Some kvs \<Rightarrow> JObj kvs) k))))"
proof -
  let ?obj = "case args of None \<Rightarrow> JObj [] | Some kvs \<Rightarrow> JObj kvs"
  assume tool: "(getTool n :: 'w ToolDefinition option) = Some tool"
    and bad: "issues (schema tool) [] ?obj \<noteq> []"
  have "isToolName n"
    using tool isToolName_getTool [where 'w = 'w, of n] by simp
  then have call: "call_tool E n args m
       = (Inl (McpError InternalError
            (''Tool execution failed: '' @ zod_message E (issues (schema tool) [] ?obj))), m)"
    using tool bad
    by (simp add: call_tool_def try_body_def parse_def catch_clause_def message_def)
  obtain shape where shape: "schema tool = ZObject shape"
    using registry_schemas [OF tool] by blast
  obtain kvs where obj: "?obj = JObj kvs"
    by (cases args) simp_all
  have "\<exists>k z rest. (k, z) \<in> set shape \<and> issue_path i = Key k # rest
          \<and> i \<in> set (issues z [Key k] (get_field ?obj k))"
    if "i \<in> set (issues (schema tool) [] ?obj)" for i
  proof -
    from that obtain kz where kz: "kz \<in> set shape"
      and i: "i \<in> set (issues (snd kz) [Key (fst kz)] (get_field ?obj (fst kz)))"
      unfolding shape obj by auto
    have "take (length [Key (fst kz)]) (issue_path i) = [Key (fst kz)]"
      using issues_prefix [OF i] .
    then obtain rest where "issue_path i = Key (fst kz) # rest"
      by (cases "issue_path i") auto
    with kz i show ?thesis
      by (intro exI [of _ "fst kz"] exI [of _ "snd kz"] exI [of _ rest]) simp
  qed
  with call shape show ?thesis by blast
qed

theorem validation_failure_wrapped_witness:
  "getTool ''browser_click''
      = Some (createTool ''Click on elements using element description and ref ID'' ClickSchema
          (\<lambda>(E :: demo_app env) args. click E (str args ''element'') (str args ''ref'')))
   \<and> issues ClickSchema [] (JObj [(''element'', JStr ''Submit'')]) \<noteq> []
   \<and> call_tool demo_env ''browser_click'' (Some [(''element'', JStr ''Submit'')]) ref_manager
       = (Inl (McpError InternalError
            (''Tool execution failed: '' @ zod_message demo_env [Issue invalid_type [Key ''ref'']])),
          ref_manager)
   \<and> issues ClickSchema [] (JObj []) \<noteq> []
   \<and> call_tool demo_env ''browser_click'' None ref_manager
       = (Inl (McpError InternalError
            (''Tool execution failed: '' @ zod_message demo_env
               [Issue invalid_type [Key ''element''], Issue invalid_type [Key ''ref'']])),
          ref_manager)"
proof -
  let ?tool = "createTool ''Click on elements using element description and ref ID'' ClickSchema
          (\<lambda>(E :: demo_app env) args. click E (str args ''element'') (str args ''ref''))"
  have tool: "getTool ''browser_click'' = Some ?tool"
    by (simp add: getTool_def TOOL_REGISTRY_def)
  have iss: "issues ClickSchema [] (JObj [(''element'', JStr ''Submit'')]) = [Issue invalid_type [Key ''ref'']]"
    by (simp add: ClickSchema_def get_field_def)
  have iss0: "issues ClickSchema [] (JObj [])
      = [Issue invalid_type [Key ''element''], Issue invalid_type [Key ''ref'']]"
    by (simp add: ClickSchema_def get_field_def)
  have bad: "issues (schema ?tool) []
      (case Some [(''element'', JStr ''Submit'')] of None \<Rightarrow> JObj [] | Some kvs \<Rightarrow> JObj kvs) \<noteq> []"
    by (simp add: createTool_def iss)
  have bad0: "issues (schema ?tool) []
      (case None :: (string \<times> json) list option of None \<Rightarrow> JObj [] | Some kvs \<Rightarrow> JObj kvs) \<noteq> []"
    by (simp add: createTool_def iss0)
  show ?thesis
    using tool iss iss0
      validation_failure_wrapped [OF tool bad, of demo_env ref_manager]
      validation_failure_wrapped [OF tool bad0, of demo_env ref_manager]
    by (simp add: createTool_def)
qed

text \<open>A failure of the handler is wrapped the same way.\<close>

lemma execution_failure_wrapped:
  assumes "(getTool n :: 'w ToolDefinition option) = Some tool"
    and "issues (schema tool) [] (JObj kvs) = []"
    and "handler tool E (parsed (schema tool) (JObj kvs)) m = (Inl (Error msg), m')"
  shows "call_tool (E :: 'w env) n (Some kvs) m
       = (Inl (McpError InternalError (''Tool execution failed: '' @ msg)), m')"
proof -
  have "isToolName n"
    using assms(1) isToolName_getTool [where 'w = 'w, of n] by simp
  then show ?thesis
    using assms
    by (simp add: call_tool_def try_body_def parse_def catch_clause_def message_def)
qed

text \<open>
  C10, as the claim states it, fails on a manager with no active page: a call of \<open>wait_for\<close>
  with none of \<open>text\<close>, \<open>textGone\<close> and \<open>time\<close> supplied then fails at the check of the
  page, with "Browser not initialized" and not with "No wait condition specified".
\<close>

theorem waitFor_without_page_counterexample:
  "currentPage (fresh_manager None) = None
   \<and> waitFor demo_env None None None (fresh_manager None)
       = (Inl (Error ''Browser not initialized''), fresh_manager None)
   \<and> call_tool demo_env ''browser_wait_for'' (Some []) (fresh_manager None)
       = (Inl (McpError InternalError ''Tool execution failed: Browser not initialized''),
          fresh_manager None)"
proof -
  have page: "currentPage (fresh_manager None) = None"
    by (simp add: fresh_manager_def)
  have fails: "waitFor demo_env None None None (fresh_manager None)
       = (Inl (Error ''Browser not initialized''), fresh_manager None)"
    by (simp add: waitFor_def page fail_def not_initialized_def)
  have tool: "getTool ''browser_wait_for''
      = Some (createTool ''Wait for specific conditions'' WaitForSchema
          (\<lambda>(E :: demo_app env) args. waitFor E (opt_str args ''text'') (opt_str args ''textGone'')
             (opt_num args ''time'')))"
    by (simp add: getTool_def TOOL_REGISTRY_def)
  have name: "isToolName ''browser_wait_for''"
    by (simp add: isToolName_def registry_names)
  have "call_tool demo_env ''browser_wait_for'' (Some []) (fresh_manager None)
       = (Inl (McpError InternalError ''Tool execution failed: Browser not initialized''),
          fresh_manager None)"
    by (simp add: call_tool_def try_body_def name tool createTool_def parse_def WaitForSchema_def
        opt_str_def opt_num_def get_field_def fails catch_clause_def message_def)
  with page fails show ?thesis by simp
qed

text \<open>
  C10, amended. A call of \<open>wait_for\<close> whose arguments are an object that supplies none of
  \<open>text\<close>, \<open>textGone\<close> and \<open>time\<close> is accepted by the schema of the tool, and the handler
  then fails without issuing a call on the page and leaves the manager as it was: on a
  manager with an active page the error is "No wait condition specified", and on a manager
  with no active page it is "Browser not initialized". Through the dispatcher the caller
  receives that message as an execution failure. The call never succeeds as a no-op.
\<close>

theorem waitFor_no_condition:
  "map_of kvs ''text'' = None \<Longrightarrow> map_of kvs ''textGone'' = None \<Longrightarrow> map_of kvs ''time'' = None \<Longrightarrow>
     issues WaitForSchema [] (JObj kvs) = []
   \<and> (currentPage m \<noteq> None \<longrightarrow>
         waitFor E None None None m = (Inl (Error ''No wait condition specified''), m)
       \<and> call_tool E ''browser_wait_for'' (Some kvs) m
           = (Inl (McpError InternalError ''Tool execution failed: No wait condition specified''), m))
   \<and> (currentPage m = None \<longrightarrow>
         waitFor E None None None m = (Inl (Error ''Browser not initialized''), m)
       \<and> call_tool E ''browser_wait_for'' (Some kvs) m
           = (Inl (McpError InternalError ''Tool execution failed: Browser not initialized''), m))"
proof -
  assume none: "map_of kvs ''text'' = None" "map_of kvs ''textGone'' = None" "map_of kvs ''time'' = None"
  have accepted: "issues WaitForSchema [] (JObj kvs) = []"
    using none by (simp add: WaitForSchema_def get_field_def)
  have args: "parsed WaitForSchema (JObj kvs) = JObj []"
    using none by (simp add: WaitForSchema_def get_field_def)
  have tool: "getTool ''browser_wait_for''
      = Some (createTool ''Wait for specific conditions'' WaitForSchema
          (\<lambda>(E :: 'a env) args. waitFor E (opt_str args ''text'') (opt_str args ''textGone'')
             (opt_num args ''time'')))"
    by (simp add: getTool_def TOOL_REGISTRY_def)
  have name: "isToolName ''browser_wait_for''"
    by (simp add: isToolName_def registry_names)
  have call: "call_tool E ''browser_wait_for'' (Some kvs) m = (Inl (McpError InternalError
        (''Tool execution failed: '' @ msg)), m)"
    if "waitFor E None None None m = (Inl (Error msg), m)" for msg
    by (simp add: call_tool_def try_body_def name tool createTool_def parse_def accepted args
        opt_str_def opt_num_def get_field_def that catch_clause_def message_def)
  have with_page: "waitFor E None None None m = (Inl (Error ''No wait condition specified''), m)"
    if "currentPage m \<noteq> None"
    using that by (auto simp add: waitFor_def or_undefined_def truthy_def fail_def)
  have without_page: "waitFor E None None None m = (Inl (Error ''Browser not initialized''), m)"
    if "currentPage m = None"
    using that by (simp add: waitFor_def fail_def not_initialized_def)
  show ?thesis
    using accepted with_page without_page call [of "''No wait condition specified''"]
      call [of "''Browser not initialized''"]
    by simp
qed

theorem waitFor_no_condition_witness:
  "map_of [(''note'', JStr ''x'')] ''text'' = None
   \<and> map_of [(''note'', JStr ''x'')] ''textGone'' = None
   \<and> map_of [(''note'', JStr ''x'')] ''time'' = None
   \<and> currentPage (demo_manager None) \<noteq> None
   \<and> call_tool demo_env ''browser_wait_for'' (Some [(''note'', JStr ''x'')]) (demo_manager None)
       = (Inl (McpError InternalError ''Tool execution failed: No wait condition specified''),
          demo_manager None)
   \<and> currentPage (fresh_manager None) = None
   \<and> waitFor demo_env None None None (fresh_manager None)
       = (Inl (Error ''Browser not initialized''), fresh_manager None)"
proof -
  have k1: "map_of [(''note'', JStr ''x'')] ''text'' = None"
    and k2: "map_of [(''note'', JStr ''x'')] ''textGone'' = None"
    and k3: "map_of [(''note'', JStr ''x'')] ''time'' = None"
    by simp_all
  have page: "currentPage (demo_manager None) \<noteq> None"
    by (simp add: demo_manager_def)
  have nopage: "currentPage (fresh_manager None) = None"
    by (simp add: fresh_manager_def)
  show ?thesis
    using k1 k2 k3 page nopage
      waitFor_no_condition [OF k1 k2 k3, of "demo_manager None" demo_env]
      waitFor_no_condition [OF k1 k2 k3, of "fresh_manager None" demo_env]
    by simp
qed

text \<open>
  C6. A call whose name is not a key of the registry fails with the \<open>McpError\<close> of code
  \<open>MethodNotFound\<close> and message "Unknown tool: " and the name, whatever the arguments are
  and on an unchanged manager: nothing is validated and no handler runs. The \<open>catch\<close>
  clause throws that error again as it is, so its code is not \<open>InternalError\<close>.
\<close>

theorem unknown_tool_method_not_found:
  "\<not> isToolName n \<Longrightarrow>
     call_tool E n args m = (Inl (McpError MethodNotFound (''Unknown tool: '' @ n)), m)
   \<and> catch_clause E (McpError MethodNotFound (''Unknown tool: '' @ n))
       = McpError MethodNotFound (''Unknown tool: '' @ n)
   \<and> (\<forall>msg m'. call_tool E n args m \<noteq> (Inl (McpError InternalError msg), m'))"
  by (simp add: call_tool_def try_body_def catch_clause_def)

theorem unknown_tool_method_not_found_witness:
  "\<not> isToolName ''browser_fly''
   \<and> call_tool demo_env ''browser_fly'' (Some [(''ref'', JStr ''e100'')]) ref_manager
       = (Inl (McpError MethodNotFound ''Unknown tool: browser_fly''), ref_manager)"
proof -
  have unknown: "\<not> isToolName ''browser_fly''"
    by (simp add: isToolName_def registry_names)
  show ?thesis
    using unknown
      unknown_tool_method_not_found [OF unknown, of demo_env "Some [(''ref'', JStr ''e100'')]" ref_manager]
    by simp
qed

section \<open>Properties of the snapshot\<close>

lemma digit_val_digit_char: "d < 10 \<Longrightarrow> digit_val (digit_char d) = d"
proof -
  assume "d < 10"
  then consider "d = 0" | "d = 1" | "d = 2" | "d = 3" | "d = 4" | "d = 5" | "d = 6" | "d = 7"
    | "d = 8" | "d = 9"
    by atomize_elim presburger
  then show ?thesis
    by cases (simp_all add: digit_val_def digit_char_def)
qed

lemma nat_of_digits_snoc: "nat_of_digits (s @ [c]) = 10 * nat_of_digits s + digit_val c"
  by (simp add: nat_of_digits_def)

lemma nat_of_digits_string_of_nat: "nat_of_digits (string_of_nat n) = n"
proof (induction n rule: string_of_nat.induct)
  case (1 n)
  show ?case
  proof (cases "n < 10")
    case True
    then show ?thesis
      by (simp add: string_of_nat.simps [of n] nat_of_digits_def digit_val_digit_char)
  next
    case False
    then have "nat_of_digits (string_of_nat n) = 10 * (n div 10) + n mod 10"
      using "1.IH" by (simp add: string_of_nat.simps [of n] nat_of_digits_snoc digit_val_digit_char)
    then show ?thesis by simp
  qed
qed

lemma string_of_nat_inj: "string_of_nat a = string_of_nat b \<Longrightarrow> a = b"
  by (metis nat_of_digits_string_of_nat)

lemma number_entries_Nil: "number_entries k [] = []"
  by (simp add: number_entries_def)

lemma number_entries_Cons: "number_entries k ((el, d) # xs) = entry el k d # number_entries (Suc k) xs"
  by (simp add: number_entries_def upt_conv_Cons del: upt_Suc)

lemma number_entries_append:
  "number_entries k (xs @ ys) = number_entries k xs @ number_entries (k + length xs) ys"
proof (induction xs arbitrary: k)
  case Nil
  show ?case by (simp add: number_entries_Nil)
next
  case (Cons x xs)
  obtain el d where x: "x = (el, d)" by (cases x)
  show ?case
    using Cons.IH [of "Suc k"] by (simp add: x number_entries_Cons)
qed

lemma length_number_entries: "length (number_entries k xs) = length xs"
  by (simp add: number_entries_def)

lemma fold_children:
  assumes "\<And>c rc els. c \<in> set cs \<Longrightarrow>
     processElement c d (rc, els) = (rc + length (captured c d), els @ number_entries rc (captured c d))"
  shows "fold (\<lambda>c. processElement c d) cs (rc, els)
     = (rc + length (concat (map (\<lambda>c. captured c d) cs)),
        els @ number_entries rc (concat (map (\<lambda>c. captured c d) cs)))"
  using assms
proof (induction cs arbitrary: rc els)
  case Nil
  show ?case by (simp add: number_entries_Nil)
next
  case (Cons c cs)
  have step: "processElement c d (rc, els) = (rc + length (captured c d), els @ number_entries rc (captured c d))"
    using Cons.prems by simp
  have rest: "fold (\<lambda>c. processElement c d) cs (rc + length (captured c d), els @ number_entries rc (captured c d))
     = (rc + length (captured c d) + length (concat (map (\<lambda>c. captured c d) cs)),
        (els @ number_entries rc (captured c d))
          @ number_entries (rc + length (captured c d)) (concat (map (\<lambda>c. captured c d) cs)))"
    using Cons.IH [of "rc + length (captured c d)" "els @ number_entries rc (captured c d)"] Cons.prems
    by simp
  show ?case
    by (simp add: step rest number_entries_append add.assoc)
qed

lemma captured_Element:
  "captured (Element tg as ty v cs) d =
     (if included (Element tg as ty v cs) then [(Element tg as ty v cs, d)] else [])
     @ concat (map (\<lambda>c. captured c (d + 1)) (filter isElement cs))"
  by (simp add: captured_def filter_concat comp_def)

lemma processElement_captured:
  "processElement el d (rc, els) = (rc + length (captured el d), els @ number_entries rc (captured el d))"
proof (induction el d "(rc, els)" arbitrary: rc els rule: processElement.induct)
  case (1 s d)
  show ?case by (simp add: captured_def number_entries_Nil)
next
  case (2 tg as ty v cs d rc els)
  let ?el = "Element tg as ty v cs"
  let ?kids = "concat (map (\<lambda>c. captured c (Suc d)) (filter isElement cs))"
  have kids: "fold (\<lambda>c. processElement c (Suc d)) (filter isElement cs) (rc', els')
     = (rc' + length ?kids, els' @ number_entries rc' ?kids)" for rc' els'
  proof (rule fold_children)
    fix c k es
    assume "c \<in> set (filter isElement cs)"
    then show "processElement c (Suc d) (k, es)
        = (k + length (captured c (Suc d)), es @ number_entries k (captured c (Suc d)))"
      using "2.hyps" by simp
  qed
  show ?case
  proof (cases "included ?el")
    case True
    then show ?thesis
      by (simp add: kids captured_Element number_entries_Cons number_entries_append)
  next
    case False
    then show ?thesis
      by (simp add: kids captured_Element)
  qed
qed

lemma snapshot_elements_captured:
  "snapshot_elements body = (case body of None \<Rightarrow> [] | Some b \<Rightarrow> number_entries 100 (captured b 0))"
  by (simp add: snapshot_elements_def processElement_captured split: option.splits)

lemma ref_entry: "ref (entry el k d) = ''e'' @ string_of_nat k"
  by (simp add: entry_def Let_def)

lemma refs_number_entries:
  "map ref (number_entries k xs) = map (\<lambda>i. ''e'' @ string_of_nat i) [k..<k + length xs]"
proof (induction xs arbitrary: k)
  case Nil
  show ?case by (simp add: number_entries_Nil)
next
  case (Cons x xs)
  obtain el d where x: "x = (el, d)" by (cases x)
  have "[k..<k + length (x # xs)] = k # [Suc k..<Suc k + length xs]"
    by (simp add: upt_conv_Cons del: upt_Suc)
  then show ?case
    using Cons.IH [of "Suc k"] by (simp add: x number_entries_Cons ref_entry del: upt_Suc)
qed

lemma refs_snapshot_elements:
  "map ref (snapshot_elements body)
     = map (\<lambda>i. ''e'' @ string_of_nat i) [100..<100 + length (snapshot_elements body)]"
  by (cases body) (simp_all add: snapshot_elements_captured refs_number_entries length_number_entries)

lemma distinct_refs_snapshot_elements: "distinct (map ref (snapshot_elements body))"
proof -
  have "inj_on (\<lambda>i. ''e'' @ string_of_nat i) A" for A
    by (rule inj_onI) (simp add: string_of_nat_inj)
  then have "distinct (map (\<lambda>i. ''e'' @ string_of_nat i) [100..<100 + length (snapshot_elements body)])"
    by (simp add: distinct_map)
  then show ?thesis
    by (simp only: refs_snapshot_elements [symmetric])
qed

text \<open>
  C3. The entries of a snapshot are the elements of the document that satisfy the
  inclusion condition, in document pre-order, numbered one by one from 100: the references
  are "e100", "e101", ... in that order, each "e" followed by the decimal counter value, and
  no reference occurs twice in one snapshot.
\<close>

theorem refs_consecutive_preorder:
  "snapshot_elements body = (case body of None \<Rightarrow> [] | Some b \<Rightarrow> number_entries 100 (captured b 0))
   \<and> map ref (snapshot_elements body)
       = map (\<lambda>i. ''e'' @ string_of_nat i) [100..<100 + length (snapshot_elements body)]
   \<and> distinct (map ref (snapshot_elements body))"
  using snapshot_elements_captured refs_snapshot_elements distinct_refs_snapshot_elements
  by blast

lemma toLowerCase_BODY: "toLowerCase ''BODY'' = ''body''"
  by (simp add: toLowerCase_def lower_char_def)

lemma toLowerCase_BUTTON: "toLowerCase ''BUTTON'' = ''button''"
  by (simp add: toLowerCase_def lower_char_def)

lemma string_of_nat_100: "string_of_nat 100 = ''100''"
  by (simp add: string_of_nat.simps digit_char_def)

lemma string_of_nat_101: "string_of_nat 101 = ''101''"
  by (simp add: string_of_nat.simps digit_char_def)

text \<open>
  C2, as the claim states it, fails: on a page whose body holds one button labelled
  "Submit", the snapshot has two entries. The body comes first, with the reference "e100",
  because its text content is the text of the button; the button has the reference "e101".
\<close>

theorem single_button_counterexample:
  "map (\<lambda>e. (ref e, tag e, clickable e)) (snapshot_elements (Some submit_page))
     = [(''e100'', ''body'', False), (''e101'', ''button'', True)]"
  by (simp add: snapshot_elements_def submit_page_def included_def text_of_def substring0_def
      trim_def isSpace_def included_tags_def clickable_tags_def entry_def Let_def getAttribute_def
      toLowerCase_BODY toLowerCase_BUTTON string_of_nat_100 string_of_nat_101)

lemma set_refs_Cons: "set_refs (e # es) mp = set_refs es (mp(ref e \<mapsto> selector e))"
  by (simp add: set_refs_def)

lemma set_refs_absent: "r \<notin> set (map ref es) \<Longrightarrow> set_refs es mp r = mp r"
proof (induction es arbitrary: mp)
  case Nil
  show ?case by (simp add: set_refs_def)
next
  case (Cons e es)
  then show ?case by (simp add: set_refs_Cons)
qed

lemma set_refs_present:
  "distinct (map ref es) \<Longrightarrow> i < length es \<Longrightarrow> set_refs es mp (ref (es ! i)) = Some (selector (es ! i))"
proof (induction es arbitrary: mp i)
  case Nil
  then show ?case by simp
next
  case (Cons e es)
  show ?case
  proof (cases i)
    case 0
    have "ref e \<notin> set (map ref es)" using Cons.prems(1) by simp
    then show ?thesis
      by (simp add: 0 set_refs_Cons set_refs_absent)
  next
    case (Suc j)
    then show ?thesis
      using Cons.IH [of j] Cons.prems by (simp add: set_refs_Cons)
  qed
qed

lemma snapshot_ref_map:
  assumes "currentPage m = Some p" and "page_body E p (app m) = Inr body"
  shows "elementRefMap (snd (snapshot E m)) = set_refs (snapshot_elements body) Map.empty"
  using assms
  by (simp add: snapshot_def Let_def fail_def ok_def split: sum.splits)

lemma nth_ref_snapshot_elements:
  assumes "i < length (snapshot_elements body)"
  shows "ref (snapshot_elements body ! i) = ''e'' @ string_of_nat (100 + i)"
proof -
  have "ref (snapshot_elements body ! i) = map ref (snapshot_elements body) ! i"
    using assms by simp
  also have "\<dots> = map (\<lambda>i. ''e'' @ string_of_nat i) [100..<100 + length (snapshot_elements body)] ! i"
    by (simp only: refs_snapshot_elements [symmetric])
  also have "\<dots> = ''e'' @ string_of_nat (100 + i)"
    using assms by simp
  finally show ?thesis .
qed

lemma later_ref_not_minted:
  assumes "length (snapshot_elements body) \<le> i"
  shows "''e'' @ string_of_nat (100 + i) \<notin> set (map ref (snapshot_elements body))"
proof
  assume "''e'' @ string_of_nat (100 + i) \<in> set (map ref (snapshot_elements body))"
  then have "''e'' @ string_of_nat (100 + i)
      \<in> set (map (\<lambda>i. ''e'' @ string_of_nat i) [100..<100 + length (snapshot_elements body)])"
    by (simp only: refs_snapshot_elements [symmetric])
  then obtain k where "k < 100 + length (snapshot_elements body)"
    and "string_of_nat (100 + i) = string_of_nat k"
    by auto
  then show False
    using assms string_of_nat_inj by fastforce
qed

lemma getSelector_nonempty: "toLowerCase (tagName el) \<noteq> [] \<Longrightarrow> getSelector el \<noteq> []"
  by (simp add: getSelector_def Let_def)

lemma selector_entry: "selector (entry el k d) = getSelector el" and tag_entry: "tag (entry el k d) = toLowerCase (tagName el)"
  by (simp_all add: entry_def Let_def)

lemma number_entries_nth:
  "i < length xs \<Longrightarrow> number_entries k xs ! i = entry (fst (xs ! i)) (k + i) (snd (xs ! i))"
  by (simp add: number_entries_def split: prod.splits)

lemma snapshot_entry_selector_nonempty:
  assumes "i < length (snapshot_elements body)" and "tag (snapshot_elements body ! i) \<noteq> []"
  shows "selector (snapshot_elements body ! i) \<noteq> []"
proof (cases body)
  case None
  with assms show ?thesis by (simp add: snapshot_elements_def)
next
  case (Some b)
  have len: "i < length (captured b 0)"
    using assms(1) by (simp add: Some snapshot_elements_captured length_number_entries)
  have nth: "snapshot_elements body ! i = entry (fst (captured b 0 ! i)) (100 + i) (snd (captured b 0 ! i))"
    by (simp add: Some snapshot_elements_captured number_entries_nth len)
  show ?thesis
    using assms(2) by (simp add: nth selector_entry tag_entry getSelector_nonempty)
qed

text \<open>
  C4, amended. A snapshot replaces the Ref Map by exactly the references it mints: the
  reference "e" followed by 100 + i resolves to the selector of the i-th recorded element
  when the snapshot recorded more than i elements, and every other reference, whatever the
  previous map held, is absent. So a reference of snapshot N resolves before snapshot N+1
  runs; after snapshot N+1 it is absent when snapshot N+1 recorded no element at its
  position, and otherwise resolves again, to the selector snapshot N+1 recorded there.
\<close>

theorem snapshot_replaces_ref_map:
  "currentPage m = Some p \<Longrightarrow> page_body E p (app m) = Inr body \<Longrightarrow>
     (\<forall>i. elementRefMap (snd (snapshot E m)) (''e'' @ string_of_nat (100 + i))
            = (if i < length (snapshot_elements body)
               then Some (selector (snapshot_elements body ! i)) else None))
   \<and> (\<forall>r. r \<notin> set (map ref (snapshot_elements body)) \<longrightarrow> elementRefMap (snd (snapshot E m)) r = None)
   \<and> (\<forall>i < length (snapshot_elements body). tag (snapshot_elements body ! i) \<noteq> [] \<longrightarrow>
         lookup_selector (snd (snapshot E m)) (''e'' @ string_of_nat (100 + i))
           = Some (selector (snapshot_elements body ! i)))"
proof -
  assume page: "currentPage m = Some p" and body: "page_body E p (app m) = Inr body"
  let ?els = "snapshot_elements body"
  have mp: "elementRefMap (snd (snapshot E m)) = set_refs ?els Map.empty"
    using page body by (rule snapshot_ref_map)
  have present: "elementRefMap (snd (snapshot E m)) (''e'' @ string_of_nat (100 + i))
      = Some (selector (?els ! i))" if "i < length ?els" for i
    using set_refs_present [OF distinct_refs_snapshot_elements that, of Map.empty]
    by (simp add: mp nth_ref_snapshot_elements [OF that])
  have absent: "elementRefMap (snd (snapshot E m)) r = None" if "r \<notin> set (map ref ?els)" for r
    using set_refs_absent [OF that, of Map.empty] by (simp add: mp)
  have later: "elementRefMap (snd (snapshot E m)) (''e'' @ string_of_nat (100 + i)) = None"
    if "\<not> i < length ?els" for i
    using that by (intro absent later_ref_not_minted) simp
  have resolve: "lookup_selector (snd (snapshot E m)) (''e'' @ string_of_nat (100 + i))
      = Some (selector (?els ! i))" if "i < length ?els" and "tag (?els ! i) \<noteq> []" for i
    using present [OF that(1)] snapshot_entry_selector_nonempty [OF that]
    by (simp add: lookup_selector_def or_undefined_def truthy_def)
  show ?thesis
    using present absent later resolve by simp
qed

lemma submit_page_refs:
  "map (\<lambda>e. (ref e, selector e, tag e)) (snapshot_elements (Some submit_page))
     = [(''e100'', ''body'', ''body''), (''e101'', ''button'', ''button'')]"
  by (simp add: snapshot_elements_def submit_page_def included_def text_of_def substring0_def
      trim_def isSpace_def included_tags_def clickable_tags_def entry_def Let_def getAttribute_def
      getSelector_def el_id_def className_def truthy_def
      toLowerCase_BODY toLowerCase_BUTTON string_of_nat_100 string_of_nat_101)

lemma submit_snapshot_map:
  assumes "currentPage m = Some p" and "page_body E p (app m) = Inr (Some submit_page)"
  shows "elementRefMap (snd (snapshot E m)) = [''e100'' \<mapsto> ''body'', ''e101'' \<mapsto> ''button'']"
proof -
  obtain a b where els: "snapshot_elements (Some submit_page) = [a, b]"
    and "ref a = ''e100''" "selector a = ''body''" "ref b = ''e101''" "selector b = ''button''"
    using submit_page_refs by auto
  then show ?thesis
    by (simp add: snapshot_ref_map [OF assms] set_refs_def)
qed

lemma snapshot_keeps_page:
  "currentPage (snd (snapshot E m)) = currentPage m \<and> app (snd (snapshot E m)) = app m"
  by (simp add: snapshot_def Let_def fail_def ok_def split: option.splits sum.splits)

theorem snapshot_replaces_ref_map_witness:
  "currentPage stale_manager = Some 0
   \<and> page_body demo_env 0 (app stale_manager) = Inr (Some submit_page)
   \<and> elementRefMap stale_manager ''e105'' = Some ''#gone''
   \<and> elementRefMap (snd (snapshot demo_env stale_manager)) ''e105'' = None
   \<and> elementRefMap (snd (snapshot demo_env stale_manager)) ''e100'' = Some ''body''"
proof -
  have page: "currentPage stale_manager = Some 0"
    by (simp add: stale_manager_def submit_manager_def demo_manager_def)
  have body: "page_body demo_env 0 (app stale_manager) = Inr (Some submit_page)"
    by (simp add: stale_manager_def submit_manager_def demo_manager_def demo_env_def)
  have old: "elementRefMap stale_manager ''e105'' = Some ''#gone''"
    by (simp add: stale_manager_def)
  obtain a b where els: "snapshot_elements (Some submit_page) = [a, b]" and a: "selector a = ''body''"
    using submit_page_refs by auto
  have n100: "''e'' @ string_of_nat (100 + 0) = ''e100''"
    by (simp add: string_of_nat_100)
  have n105: "''e'' @ string_of_nat (100 + 5) = ''e105''"
    by (simp add: string_of_nat.simps digit_char_def)
  have all: "\<forall>i. elementRefMap (snd (snapshot demo_env stale_manager)) (''e'' @ string_of_nat (100 + i))
      = (if i < length (snapshot_elements (Some submit_page))
         then Some (selector (snapshot_elements (Some submit_page) ! i)) else None)"
    using snapshot_replaces_ref_map [OF page body] by blast
  show ?thesis
    using page body old all [rule_format, of 0] all [rule_format, of 5]
    unfolding n100 n105 by (simp add: els a)
qed

lemma click_demo_env:
  "currentPage m = Some p \<Longrightarrow> lookup_selector m r = Some sel \<Longrightarrow>
   fst (click demo_env el r m) = Inr [Block ''text'' (''Clicked on '' @ el @ '' (ref: '' @ r @ '')'')]"
  by (simp add: click_def step_def demo_env_def ok_def text_result_def)

text \<open>
  C4, as the claim states it, fails: two snapshots of the same page mint the same
  references, so the reference "e101" of the first snapshot still resolves after the
  second one, and a click with it goes through.
\<close>

theorem stale_ref_resolves_counterexample:
  "lookup_selector (snd (snapshot demo_env submit_manager)) ''e101'' = Some ''button''
   \<and> lookup_selector (snd (snapshot demo_env (snd (snapshot demo_env submit_manager)))) ''e101''
       = Some ''button''
   \<and> fst (click demo_env ''Submit'' ''e101''
            (snd (snapshot demo_env (snd (snapshot demo_env submit_manager)))))
       = Inr [Block ''text'' ''Clicked on Submit (ref: e101)'']"
proof -
  let ?m1 = "snd (snapshot demo_env submit_manager)"
  let ?m2 = "snd (snapshot demo_env ?m1)"
  have page0: "currentPage submit_manager = Some 0"
    and body0: "page_body demo_env 0 (app submit_manager) = Inr (Some submit_page)"
    by (simp_all add: submit_manager_def demo_manager_def demo_env_def)
  have page1: "currentPage ?m1 = Some 0"
    and body1: "page_body demo_env 0 (app ?m1) = Inr (Some submit_page)"
    using page0 body0 by (simp_all add: snapshot_keeps_page)
  have page2: "currentPage ?m2 = Some 0"
    using page1 by (simp add: snapshot_keeps_page)
  have map1: "elementRefMap ?m1 = [''e100'' \<mapsto> ''body'', ''e101'' \<mapsto> ''button'']"
    using page0 body0 by (rule submit_snapshot_map)
  have map2: "elementRefMap ?m2 = [''e100'' \<mapsto> ''body'', ''e101'' \<mapsto> ''button'']"
    using page1 body1 by (rule submit_snapshot_map)
  have r1: "lookup_selector ?m1 ''e101'' = Some ''button''"
    by (simp add: lookup_selector_def map1 or_undefined_def truthy_def)
  have r2: "lookup_selector ?m2 ''e101'' = Some ''button''"
    by (simp add: lookup_selector_def map2 or_undefined_def truthy_def)
  have "fst (click demo_env ''Submit'' ''e101'' ?m2) = Inr [Block ''text'' ''Clicked on Submit (ref: e101)'']"
    using click_demo_env [OF page2 r2, of "''Submit''"] by simp
  with r1 r2 show ?thesis by simp
qed

text \<open>No handler other than \<open>snapshot\<close> changes the Ref Map: between two snapshots a reference
  keeps resolving to the same selector.\<close>

lemma step_keeps_ref_map:
  assumes "\<And>m'. elementRefMap (snd (k m')) = elementRefMap m'"
  shows "elementRefMap (snd (step E a p m k)) = elementRefMap m"
  by (simp add: step_def assms split: prod.splits option.splits)

lemma report_page_keeps_ref_map: "elementRefMap (snd (report_page E pre suf p m)) = elementRefMap m"
  by (simp add: report_page_def ok_def fail_def split: sum.splits)

lemma fillForm_loop_keeps_ref_map:
  "elementRefMap (snd (fillForm_loop E p fs rs m)) = elementRefMap m"
proof (induction fs arbitrary: rs m)
  case Nil
  show ?case by simp
next
  case (Cons f fs)
  have same: "lookup_selector (m\<lparr>app := w\<rparr>) r = lookup_selector m r" for w r
    by (simp add: lookup_selector_def)
  show ?case
    by (simp add: Cons.IH Let_def split: option.splits prod.splits)
qed

lemma handlers_keep_ref_map:
  "elementRefMap (snd (navigate E url m)) = elementRefMap m"
  "elementRefMap (snd (navigateBack E m)) = elementRefMap m"
  "elementRefMap (snd (click E el r m)) = elementRefMap m"
  "elementRefMap (snd (type_text E el r t sl su m)) = elementRefMap m"
  "elementRefMap (snd (pressKey E key m)) = elementRefMap m"
  "elementRefMap (snd (fillForm E fs m)) = elementRefMap m"
  "elementRefMap (snd (selectOption E el r vs m)) = elementRefMap m"
  "elementRefMap (snd (hover E el r m)) = elementRefMap m"
  "elementRefMap (snd (drag E a b c d m)) = elementRefMap m"
  "elementRefMap (snd (takeScreenshot E fn elo ro fp ty m)) = elementRefMap m"
  "elementRefMap (snd (evaluate E f elo ro m)) = elementRefMap m"
  "elementRefMap (snd (fileUpload E ps m)) = elementRefMap m"
  "elementRefMap (snd (manageTabs E act idx m)) = elementRefMap m"
  "elementRefMap (snd (handleDialog E ac pt m)) = elementRefMap m"
  "elementRefMap (snd (waitFor E tx tg ti m)) = elementRefMap m"
  "elementRefMap (snd (resize E w h m)) = elementRefMap m"
  "elementRefMap (snd (close E m)) = elementRefMap m"
  "elementRefMap (snd (getNetworkRequests E m)) = elementRefMap m"
  "elementRefMap (snd (getConsoleMessages E m)) = elementRefMap m"
proof -
  show "elementRefMap (snd (navigate E url m)) = elementRefMap m"
    by (simp add: navigate_def step_keeps_ref_map report_page_keeps_ref_map fail_def split: option.splits)
  show "elementRefMap (snd (navigateBack E m)) = elementRefMap m"
    by (simp add: navigateBack_def step_keeps_ref_map report_page_keeps_ref_map fail_def split: option.splits)
  show "elementRefMap (snd (click E el r m)) = elementRefMap m"
    by (simp add: click_def step_keeps_ref_map ok_def fail_def split: option.splits)
  show "elementRefMap (snd (type_text E el r t sl su m)) = elementRefMap m"
    by (simp add: type_text_def step_keeps_ref_map ok_def fail_def Let_def split: option.splits)
  show "elementRefMap (snd (pressKey E key m)) = elementRefMap m"
    by (simp add: pressKey_def step_keeps_ref_map ok_def fail_def split: option.splits)
  show "elementRefMap (snd (fillForm E fs m)) = elementRefMap m"
  proof (cases "currentPage m")
    case None
    then show ?thesis by (simp add: fillForm_def fail_def)
  next
    case (Some p)
    obtain res m1 where loop: "fillForm_loop E p fs [] m = (res, m1)"
      by (cases "fillForm_loop E p fs [] m")
    have "elementRefMap m1 = elementRefMap m"
      using fillForm_loop_keeps_ref_map [of E p fs "[]" m] by (simp add: loop)
    then show ?thesis
      by (simp add: fillForm_def Some loop ok_def fail_def split: sum.splits)
  qed
  show "elementRefMap (snd (selectOption E el r vs m)) = elementRefMap m"
    by (simp add: selectOption_def step_keeps_ref_map ok_def fail_def split: option.splits)
  show "elementRefMap (snd (hover E el r m)) = elementRefMap m"
    by (simp add: hover_def step_keeps_ref_map ok_def fail_def split: option.splits)
  show "elementRefMap (snd (drag E a b c d m)) = elementRefMap m"
    by (simp add: drag_def step_keeps_ref_map ok_def fail_def split: option.splits)
  show "elementRefMap (snd (takeScreenshot E fn elo ro fp ty m)) = elementRefMap m"
    by (simp add: takeScreenshot_def step_keeps_ref_map ok_def fail_def Let_def split: option.splits)
  show "elementRefMap (snd (evaluate E f elo ro m)) = elementRefMap m"
    by (simp add: evaluate_def evaluation_result_def ok_def fail_def
        split: option.splits sum.splits prod.splits)
  show "elementRefMap (snd (fileUpload E ps m)) = elementRefMap m"
    by (simp add: fileUpload_def step_keeps_ref_map ok_def fail_def split: option.splits sum.splits)
  show "elementRefMap (snd (manageTabs E act idx m)) = elementRefMap m"
    by (simp add: manageTabs_def step_keeps_ref_map ok_def fail_def Let_def
        split: option.splits sum.splits prod.splits)
  show "elementRefMap (snd (handleDialog E ac pt m)) = elementRefMap m"
    by (simp add: handleDialog_def step_keeps_ref_map ok_def fail_def split: option.splits)
  show "elementRefMap (snd (waitFor E tx tg ti m)) = elementRefMap m"
    by (simp add: waitFor_def step_keeps_ref_map ok_def fail_def split: option.splits)
  show "elementRefMap (snd (resize E w h m)) = elementRefMap m"
    by (simp add: resize_def step_keeps_ref_map ok_def fail_def split: option.splits)
  show "elementRefMap (snd (close E m)) = elementRefMap m"
    by (simp add: close_def ok_def fail_def split: option.splits prod.splits)
  show "elementRefMap (snd (getNetworkRequests E m)) = elementRefMap m"
    by (simp add: getNetworkRequests_def ok_def)
  show "elementRefMap (snd (getConsoleMessages E m)) = elementRefMap m"
    by (simp add: getConsoleMessages_def ok_def)
qed



lemma trim_empty_iff: "trim s = [] \<longleftrightarrow> list_all isSpace s"
proof
  assume "list_all isSpace s"
  then have d: "dropWhile isSpace s = []"
    by (simp add: list_all_iff dropWhile_eq_Nil_conv)
  show "trim s = []"
    unfolding trim_def d by simp
next
  assume empty: "trim s = []"
  show "list_all isSpace s"
  proof (rule ccontr)
    assume "\<not> list_all isSpace s"
    then have ne: "dropWhile isSpace s \<noteq> []"
      by (simp add: list_all_iff dropWhile_eq_Nil_conv)
    then have "\<not> isSpace (hd (dropWhile isSpace s))"
      by (rule hd_dropWhile)
    moreover have "hd (dropWhile isSpace s) \<in> set (rev (dropWhile isSpace s))"
      using ne by simp
    ultimately have "dropWhile isSpace (rev (dropWhile isSpace s)) \<noteq> []"
      by (auto simp add: dropWhile_eq_Nil_conv)
    then show False
      using empty by (simp add: trim_def)
  qed
qed

lemma text_of_empty_iff: "text_of el = [] \<longleftrightarrow> list_all isSpace (textContent el)"
  by (simp add: text_of_def substring0_def trim_empty_iff)

lemma silent_quiet:
  "silent n \<Longrightarrow> list_all isSpace (textContent n) \<and> captured n d = []"
proof (induction n arbitrary: d)
  case (Text s)
  then show ?case by (simp add: captured_def)
next
  case (Element tg as ty v cs)
  have kids: "c \<in> set cs \<Longrightarrow> list_all isSpace (textContent c) \<and> captured c (d + 1) = []" for c
    using Element.IH [of c "d + 1"] Element.prems by (simp add: list_all_iff)
  have tc: "list_all isSpace (textContent (Element tg as ty v cs))"
    using kids by (auto simp add: list_all_iff)
  have "\<not> included (Element tg as ty v cs)"
    using tc Element.prems by (simp add: included_def text_of_empty_iff del: textContent.simps)
  moreover have "concat (map (\<lambda>c. captured c (d + 1)) (filter isElement cs)) = []"
    using kids by simp
  ultimately show ?case
    using tc by (simp add: captured_Element del: textContent.simps)
qed

lemma silent_list_text: "list_all silent ns \<Longrightarrow> list_all isSpace (concat (map textContent ns))"
  using silent_quiet by (auto simp add: list_all_iff)

lemma silent_list_captured:
  "list_all silent ns \<Longrightarrow> concat (map (\<lambda>c. captured c d) (filter isElement ns)) = []"
  using silent_quiet by (auto simp add: list_all_iff)

lemma isElement_wrap: "isElement b \<Longrightarrow> isElement (wrap ls b)"
  by (induction ls b rule: wrap.induct) simp_all

lemma wrap_text: "\<not> list_all isSpace (textContent b) \<Longrightarrow> \<not> list_all isSpace (textContent (wrap ls b))"
  by (induction ls b rule: wrap.induct) simp_all

lemma wrap_included:
  "\<not> list_all isSpace (textContent b) \<Longrightarrow> included (wrap (l # ls) b)"
  using wrap_text [of b "l # ls"] by (simp add: included_def text_of_empty_iff)

lemma length_ancestors: "length (ancestors ls b) = length ls"
  by (induction ls) simp_all

lemma captured_wrap:
  assumes "isElement b" and "\<not> list_all isSpace (textContent b)" and "list_all quiet ls"
  shows "captured (wrap ls b) d
     = zip (ancestors ls b) [d..<d + length ls] @ captured b (d + length ls)"
  using assms(3)
proof (induction ls arbitrary: d)
  case Nil
  show ?case by simp
next
  case (Cons l ls)
  obtain tg as ty v before after where l: "l = Layer tg as ty v before after"
    by (cases l)
  have q: "list_all silent before" "list_all silent after" and rest: "list_all quiet ls"
    using Cons.prems by (simp_all add: l)
  have inc: "included (wrap (l # ls) b)"
    using assms(2) by (rule wrap_included)
  have kids: "concat (map (\<lambda>c. captured c (Suc d)) (filter isElement (before @ [wrap ls b] @ after)))
      = captured (wrap ls b) (Suc d)"
    by (simp add: silent_list_captured [OF q(1)] silent_list_captured [OF q(2)]
        isElement_wrap [OF assms(1)])
  have "captured (wrap (l # ls) b) d = (wrap (l # ls) b, d) # captured (wrap ls b) (Suc d)"
    using inc kids captured_Element [of tg as ty v "before @ [wrap ls b] @ after" d]
    by (simp add: l)
  also have "captured (wrap ls b) (Suc d)
      = zip (ancestors ls b) [Suc d..<Suc d + length ls] @ captured b (Suc d + length ls)"
    using Cons.IH [OF rest, of "Suc d"] .
  finally show ?case
    by (simp add: upt_conv_Cons del: upt_Suc)
qed

lemma captured_button:
  "captured (Element ''BUTTON'' as ty v [Text label]) d = [(Element ''BUTTON'' as ty v [Text label], d)]"
  by (simp add: captured_Element included_def included_tags_def toLowerCase_BUTTON)

text \<open>
  C2, amended. On a page where a button whose only content is a label that is not blank
  is all there is to record besides its ancestors (every other child node of an ancestor is
  silent), the snapshot has one entry for each ancestor of the button, from the body down,
  and then the entry of the button: one entry more than the button has ancestors. The entry
  of the button is the last one; it has tag "button", is clickable, and its reference is
  "e" followed by 100 plus the number of ancestors, so "e101" for a button that is a child
  of the body, whose own entry has the base reference "e100".
\<close>

theorem single_button_snapshot:
  "trim label \<noteq> [] \<Longrightarrow> list_all quiet ls \<Longrightarrow>
     snapshot_elements (Some (wrap ls (Element ''BUTTON'' as ty v [Text label])))
       = number_entries 100
           (zip (ancestors ls (Element ''BUTTON'' as ty v [Text label])) [0..<length ls]
            @ [(Element ''BUTTON'' as ty v [Text label], length ls)])
   \<and> length (snapshot_elements (Some (wrap ls (Element ''BUTTON'' as ty v [Text label])))) = length ls + 1
   \<and> snapshot_elements (Some (wrap ls (Element ''BUTTON'' as ty v [Text label]))) ! length ls
       = entry (Element ''BUTTON'' as ty v [Text label]) (100 + length ls) (length ls)
   \<and> ref (entry (Element ''BUTTON'' as ty v [Text label]) (100 + length ls) (length ls))
       = ''e'' @ string_of_nat (100 + length ls)
   \<and> tag (entry (Element ''BUTTON'' as ty v [Text label]) (100 + length ls) (length ls)) = ''button''
   \<and> clickable (entry (Element ''BUTTON'' as ty v [Text label]) (100 + length ls) (length ls))"
proof -
  let ?b = "Element ''BUTTON'' as ty v [Text label]"
  let ?page = "wrap ls ?b"
  let ?xs = "zip (ancestors ls ?b) [0..<length ls] @ [(?b, length ls)]"
  assume label: "trim label \<noteq> []" and layers: "list_all quiet ls"
  have tc: "\<not> list_all isSpace (textContent ?b)"
    using label by (simp add: trim_empty_iff)
  have "captured ?page 0 = ?xs"
    using captured_wrap [OF _ tc layers, of 0] by (simp add: captured_button)
  then have els: "snapshot_elements (Some ?page) = number_entries 100 ?xs"
    by (simp add: snapshot_elements_captured)
  have len: "length ?xs = length ls + 1"
    by (simp add: length_ancestors)
  have nth: "number_entries 100 ?xs ! length ls = entry ?b (100 + length ls) (length ls)"
    using number_entries_nth [of "length ls" ?xs 100]
    by (simp add: length_ancestors nth_append)
  show ?thesis
    using els len nth
    by (simp add: length_number_entries ref_entry tag_entry toLowerCase_BUTTON entry_def Let_def
        clickable_tags_def)
qed

theorem single_button_snapshot_witness:
  "trim ''Submit'' \<noteq> []
   \<and> list_all quiet [Layer ''BODY'' [] None None [] []]
   \<and> wrap [Layer ''BODY'' [] None None [] []] (Element ''BUTTON'' [] (Some ''submit'') (Some []) [Text ''Submit''])
       = submit_page
   \<and> length (snapshot_elements (Some submit_page)) = 2
   \<and> snapshot_elements (Some submit_page) ! 1
       = entry (Element ''BUTTON'' [] (Some ''submit'') (Some []) [Text ''Submit'']) 101 1
   \<and> ref (entry (Element ''BUTTON'' [] (Some ''submit'') (Some []) [Text ''Submit'']) 101 1) = ''e101''
   \<and> list_all quiet [Layer ''BODY'' [] None None [Text '' ''] [Element ''DIV'' [] None None []],
                      Layer ''FORM'' [] None None [] [Text '' '']]
   \<and> wrap [Layer ''BODY'' [] None None [Text '' ''] [Element ''DIV'' [] None None []],
            Layer ''FORM'' [] None None [] [Text '' '']]
        (Element ''BUTTON'' [] (Some ''submit'') (Some []) [Text ''Submit''])
       = Element ''BODY'' [] None None
           [Text '' '',
            Element ''FORM'' [] None None
              [Element ''BUTTON'' [] (Some ''submit'') (Some []) [Text ''Submit''], Text '' ''],
            Element ''DIV'' [] None None []]
   \<and> length (snapshot_elements (Some (Element ''BODY'' [] None None
           [Text '' '',
            Element ''FORM'' [] None None
              [Element ''BUTTON'' [] (Some ''submit'') (Some []) [Text ''Submit''], Text '' ''],
            Element ''DIV'' [] None None []]))) = 3
   \<and> ref (entry (Element ''BUTTON'' [] (Some ''submit'') (Some []) [Text ''Submit'']) 102 2) = ''e102''"
proof -
  let ?b = "Element ''BUTTON'' [] (Some ''submit'') (Some []) [Text ''Submit'']"
  let ?one = "[Layer ''BODY'' [] None None [] []]"
  let ?two = "[Layer ''BODY'' [] None None [Text '' ''] [Element ''DIV'' [] None None []],
               Layer ''FORM'' [] None None [] [Text '' '']]"
  have label: "trim ''Submit'' \<noteq> []"
    by (simp add: trim_def isSpace_def)
  have div: "toLowerCase ''DIV'' = ''div''"
    by (simp add: toLowerCase_def lower_char_def)
  have q1: "list_all quiet ?one"
    by simp
  have q2: "list_all quiet ?two"
    by (simp add: isSpace_def div included_tags_def)
  have n101: "string_of_nat 101 = ''101''" and n102: "string_of_nat 102 = ''102''"
    by (simp_all add: string_of_nat.simps digit_char_def)
  show ?thesis
    using label q1 q2
      single_button_snapshot [OF label q1, of "[]" "Some ''submit''" "Some []", THEN conjunct2]
      single_button_snapshot [OF label q2, of "[]" "Some ''submit''" "Some []", THEN conjunct2]
    by (simp add: submit_page_def ref_entry n101 n102)
qed

end
